theory Spec2Isabelle
  imports Complex_Main
begin

section \<open>The double-helix idle screen (src/idle\_screen.tsx)\<close>

text \<open>
  The component mounts a canvas, builds two strands of backbone particles and a row of
  base pairs, and redraws them from a throttled animation-frame callback.

  A JavaScript number is a double. The model takes the doubles as the real numbers that
  rounding leaves fixed, and rounds the result of every operation of the helper
  \<open>random\<close>, of the scheduler and of the update of a backbone particle: these are the
  values that a property below is about. A literal of the source that is not a double,
  such as \<open>0.8\<close>, stands for the double nearest to it. The geometry of a base pair,
  the distances of the link pass and the styles of the drawing calls are written over
  the real numbers: no property below depends on their values. The one place where the source computes a not-a-number (the helper
  \<open>random\<close> called without arguments) is modelled with an explicit \<open>NaN\<close> value.
  \<open>Math.random()\<close> is an input: every function that draws from it takes the drawn
  values, each in the half-open unit interval, as arguments.
\<close>

subsection \<open>Double precision\<close>

text \<open>
  Rounding to the nearest integer, a tie going to the even one.
\<close>

definition round_even :: "real \<Rightarrow> int" where
  "round_even y =
     (let f = \<lfloor>y\<rfloor>; d = y - of_int f
      in if d < 1 / 2 then f else if 1 / 2 < d then f + 1 else if even f then f else f + 1)"

text \<open>
  The distance between neighbouring doubles around \<open>x\<close>: a significand of 53 bits.
  Overflow and the subnormal range are left out; the numbers of the program are far
  from both.
\<close>

definition ulp :: "real \<Rightarrow> real" where
  "ulp x = 2 powr (of_int \<lfloor>log 2 \<bar>x\<bar>\<rfloor> - 52)"

text \<open>The double nearest to a real number, a tie going to the even significand.\<close>

definition fl :: "real \<Rightarrow> real" where
  "fl x = sgn x * (of_int (round_even (\<bar>x\<bar> / ulp x)) * ulp x)"

text \<open>\<open>Math.PI\<close>, the double nearest to \<open>pi\<close>; \<open>Math.sin\<close> and \<open>Math.cos\<close>,
  taken to return the double nearest to the exact value.\<close>

definition Math_PI :: real where
  "Math_PI = 884279719003555 / 2 ^ 48"

definition Math_sin :: "real \<Rightarrow> real" where
  "Math_sin x = fl (sin x)"

definition Math_cos :: "real \<Rightarrow> real" where
  "Math_cos x = fl (cos x)"

subsection \<open>Numbers and helpers\<close>

datatype jsnum = NaN | Fin real

text \<open>The comparison \<open>a > b\<close> of JavaScript: false as soon as one side is not a number.\<close>

fun js_gt :: "jsnum \<Rightarrow> jsnum \<Rightarrow> bool" where
  "js_gt (Fin a) (Fin b) = (a > b)"
| "js_gt _ _ = False"

text \<open>
  \<open>random(min, max)\<close>, lines 34 to 40. The first argument is the value drawn by
  \<open>Math.random()\<close>; an argument that the caller leaves out is \<open>None\<close>
  (\<open>undefined\<close>), and arithmetic on \<open>undefined\<close> gives not-a-number. The
  difference, the product and the sum are each rounded.
\<close>

definition random_js :: "real \<Rightarrow> real option \<Rightarrow> real option \<Rightarrow> jsnum" where
  "random_js u min_arg max_arg =
     (let (mn, mx) = (if max_arg = None then (Some 0, min_arg) else (min_arg, max_arg))
      in case (mn, mx) of
           (Some a, Some b) \<Rightarrow> Fin (fl (fl (u * fl (b - a)) + a))
         | _ \<Rightarrow> NaN)"

text \<open>A call with both bounds never yields not-a-number; the model reads its value off.\<close>

definition random2 :: "real \<Rightarrow> real \<Rightarrow> real \<Rightarrow> real" where
  "random2 u a b = (case random_js u (Some a) (Some b) of Fin r \<Rightarrow> r | NaN \<Rightarrow> 0)"

definition map_js :: "real \<Rightarrow> real \<Rightarrow> real \<Rightarrow> real \<Rightarrow> real \<Rightarrow> real" where
  "map_js v start1 stop1 start2 stop2 =
     start2 + (stop2 - start2) * ((v - start1) / (stop1 - start1))"

definition dist_js :: "real \<Rightarrow> real \<Rightarrow> real \<Rightarrow> real \<Rightarrow> real \<Rightarrow> real \<Rightarrow> real" where
  "dist_js x1 y1 z1 x2 y2 z2 =
     (let dx = x2 - x1; dy = y2 - y1; dz = z2 - z1
      in sqrt (dx * dx + dy * dy + dz * dz))"

subsection \<open>Constants\<close>

definition width :: real where "width = 800"
definition height :: real where "height = 600"
definition ROTATION_PER_BP :: real where
  "ROTATION_PER_BP = fl (fl (fl 34.3 * Math_PI) / 180)"
definition RISE_PER_BP :: real where "RISE_PER_BP = 8"
definition HELIX_DIAMETER :: real where "HELIX_DIAMETER = 60"
definition HELIX_RADIUS :: real where "HELIX_RADIUS = HELIX_DIAMETER / 2"
definition INCLINATION :: real where
  "INCLINATION = fl (fl (fl (- 1.2) * Math_PI) / 180)"
definition PROPELLER_TWIST :: real where
  "PROPELLER_TWIST = fl (fl (16 * Math_PI) / 180)"
definition numBasePairs :: nat where "numBasePairs = 80"
definition TWO_PI :: real where "TWO_PI = Math_PI * 2"
definition animationSpeed :: real where "animationSpeed = fl 0.01"
definition targetFPS :: real where "targetFPS = 30"
definition frameInterval :: real where "frameInterval = fl (1000 / targetFPS)"

subsection \<open>Backbone particles\<close>

text \<open>
  The fields of class \<open>BackboneParticle\<close>. The field \<open>connections\<close> holds a
  \<open>Set\<close> object, which \<open>update\<close> hands on to the point it returns, so that the
  particle and its points share one set. The model keeps the sets in a store and the
  field holds the address of the particle's set.
\<close>

type_synonym addr = nat

record BackboneParticle =
  p_bpIndex :: nat
  p_strand :: nat
  p_baseY :: real
  p_size :: real
  p_opacity :: real
  p_entropy :: real
  p_phaseNoise :: real
  p_radiusNoise :: real
  p_yNoise :: real
  p_connections :: addr

text \<open>
  The constructor, lines 54 to 65. It draws six times; \<open>g k\<close> is the \<open>k\<close>-th
  value of \<open>Math.random()\<close> it sees, and \<open>a\<close> is the address of the set that
  \<open>new Set()\<close> allocates.
\<close>

definition BackboneParticle_new ::
  "nat \<Rightarrow> nat \<Rightarrow> (nat \<Rightarrow> real) \<Rightarrow> addr \<Rightarrow> BackboneParticle" where
  "BackboneParticle_new bpIndex strand g a =
     \<lparr> p_bpIndex = bpIndex,
       p_strand = strand,
       p_baseY = (real bpIndex - real numBasePairs / 2) * RISE_PER_BP,
       p_size = random2 (g 0) 2 4,
       p_opacity = random2 (g 1) 160 200,
       p_entropy = random2 (g 2) (fl 0.8) (fl 1.2),
       p_phaseNoise = random2 (g 3) 0 TWO_PI,
       p_radiusNoise = random2 (g 4) (fl 0.85) (fl 1.15),
       p_yNoise = random2 (g 5) (- 2) 2,
       p_connections = a \<rparr>"

text \<open>
  The object returned by \<open>BackboneParticle.update\<close>. Its \<open>connections\<close> entry is
  the particle's own set object: the same address.
\<close>

record point =
  pt_x :: real
  pt_y :: real
  pt_z :: real
  pt_size :: real
  pt_opacity :: real
  pt_strand :: nat
  pt_bpIndex :: nat
  pt_rotation :: real
  pt_entropy :: real
  pt_connections :: addr

definition BackboneParticle_update :: "BackboneParticle \<Rightarrow> real \<Rightarrow> point" where
  "BackboneParticle_update this time =
     (let rotation = fl (fl (real (p_bpIndex this) * ROTATION_PER_BP)
                           + fl (fl (time * animationSpeed) * p_entropy this));
          strandPhase = (if p_strand this = 1 then 0 else Math_PI);
          totalRotation = fl (fl (rotation + strandPhase) + fl (p_phaseNoise this * fl 0.1));
          breathingRadius =
            fl (fl (HELIX_RADIUS * p_radiusNoise this)
                  * fl (1 + fl (Math_sin (fl (fl (time * fl 0.03) + p_phaseNoise this)) * fl 0.1)));
          x = fl (fl (width / 2) + fl (Math_cos totalRotation * breathingRadius));
          y = fl (fl (fl (fl (height / 2) + p_baseY this) + p_yNoise this)
                    + fl (Math_sin (fl (fl (time * fl 0.02) + p_phaseNoise this)) * 3));
          z = fl (Math_sin totalRotation * breathingRadius);
          inclinedY = fl (y + fl (fl (Math_sin totalRotation * Math_sin INCLINATION) * 5))
      in \<lparr> pt_x = x, pt_y = inclinedY, pt_z = z,
           pt_size = p_size this, pt_opacity = p_opacity this,
           pt_strand = p_strand this, pt_bpIndex = p_bpIndex this,
           pt_rotation = totalRotation, pt_entropy = p_entropy this,
           pt_connections = p_connections this \<rparr>)"

subsection \<open>Base pairs\<close>

datatype bptype = GC | AT

record BasePair =
  b_bpIndex :: nat
  b_baseY :: real
  b_size :: real
  b_opacity :: real
  b_type :: bptype
  b_strength :: real
  b_bondPhase :: real
  b_isConnected :: bool
  b_reconnectionTimer :: nat

text \<open>
  The constructor, lines 102 to 113. It draws five times. The draw for the type goes
  through \<open>random()\<close> without arguments.
\<close>

definition BasePair_new :: "nat \<Rightarrow> (nat \<Rightarrow> real) \<Rightarrow> BasePair" where
  "BasePair_new bpIndex g =
     (let ty = (if js_gt (random_js (g 2) None None) (Fin (fl 0.6)) then GC else AT)
      in \<lparr> b_bpIndex = bpIndex,
           b_baseY = (real bpIndex - real numBasePairs / 2) * RISE_PER_BP,
           b_size = random2 (g 0) 3 5,
           b_opacity = random2 (g 1) 120 160,
           b_type = ty,
           b_strength = (if ty = GC then random2 (g 3) (fl 0.7) 1.0
                         else random2 (g 3) (fl 0.4) (fl 0.8)),
           b_bondPhase = random2 (g 4) 0 TWO_PI,
           b_isConnected = True,
           b_reconnectionTimer = 0 \<rparr>)"

text \<open>
  Lines 119 to 128, the bond dynamics of \<open>BasePair.update\<close>. The two arguments are
  the values of the two calls of \<open>random\<close>: \<open>r_break\<close> of \<open>random()\<close> in the
  first condition and \<open>r_dwell\<close> of \<open>random(30, 80)\<close> in the second. Each condition
  short-circuits, so one call of \<open>update\<close> evaluates exactly one of them.
\<close>

definition bond_step :: "jsnum \<Rightarrow> jsnum \<Rightarrow> BasePair \<Rightarrow> BasePair" where
  "bond_step r_break r_dwell this =
     (let this1 = this\<lparr> b_reconnectionTimer := b_reconnectionTimer this + 1 \<rparr>;
          bondStability = (if b_type this1 = GC then fl 0.98 else fl 0.95)
      in if b_isConnected this1 \<and> js_gt r_break (Fin bondStability)
         then this1\<lparr> b_isConnected := False, b_reconnectionTimer := 0 \<rparr>
         else if \<not> b_isConnected this1
                 \<and> js_gt (Fin (real (b_reconnectionTimer this1))) r_dwell
         then this1\<lparr> b_isConnected := True, b_reconnectionTimer := 0 \<rparr>
         else this1)"

text \<open>
  The object returned by \<open>BasePair.update\<close>. The source's object literal names the
  key \<open>y\<close> twice; the later entry wins, so both bases share the twisted \<open>y\<close>.
\<close>

record bp_point =
  bp_x1 :: real
  bp_y :: real
  bp_z1 :: real
  bp_x2 :: real
  bp_z2 :: real
  bp_size :: real
  bp_opacity :: real
  bp_type :: bptype
  bp_bpIndex :: nat
  bp_strength :: real
  bp_isConnected :: bool

text \<open>
  \<open>BasePair.update\<close>, lines 115 to 153: the new state of the object and the returned
  point. \<open>u\<close> is the one value of \<open>Math.random()\<close> the call consumes.
\<close>

definition BasePair_update :: "real \<Rightarrow> BasePair \<Rightarrow> real \<Rightarrow> BasePair \<times> bp_point" where
  "BasePair_update u this time =
     (let rotation = real (b_bpIndex this) * ROTATION_PER_BP + time * animationSpeed;
          this' = bond_step (random_js u None None) (random_js u (Some 30) (Some 80)) this;
          bondFluctuation = sin (time * 0.05 + b_bondPhase this') * 0.1 + 1;
          x1 = width / 2 + cos rotation * HELIX_RADIUS;
          x2 = width / 2 + cos (rotation + Math_PI) * HELIX_RADIUS;
          y = height / 2 + b_baseY this';
          z1 = sin rotation * HELIX_RADIUS;
          z2 = sin (rotation + Math_PI) * HELIX_RADIUS;
          propellerOffset = sin PROPELLER_TWIST * 3 * bondFluctuation
      in (this',
          \<lparr> bp_x1 = x1, bp_y = y + propellerOffset, bp_z1 = z1,
            bp_x2 = x2, bp_z2 = z2,
            bp_size = b_size this', bp_opacity = b_opacity this',
            bp_type = b_type this', bp_bpIndex = b_bpIndex this',
            bp_strength = b_strength this' * bondFluctuation,
            bp_isConnected = b_isConnected this' \<rparr>))"

subsection \<open>The canvas\<close>

text \<open>
  A colour is one of the two kinds of style string the source builds: the hexadecimal
  background colour, or \<open>rgba(r, g, b, a)\<close> with a computed opacity.
\<close>

datatype colour = Hex string | Rgba nat nat nat real

text \<open>
  The drawing calls the canvas receives, each with the style that is current when the
  call is made: \<open>fillRect\<close> with the fill style; a path of one line, stroked, with
  the line width and the stroke style; a path of one full arc, filled, with the fill
  style; and \<open>clearRect\<close>.
\<close>

datatype draw =
    FillRect colour real real real real
  | StrokeLine real colour real real real real
  | FillArc colour real real real real real
  | ClearRect real real real real

subsection \<open>The scene and the host\<close>

text \<open>
  The variables of the effect's closure: the frame counter \<open>time\<close>, the three arrays
  of entities, \<open>allPoints\<close>, \<open>lastFrameTime\<close>, and the store of \<open>Set\<close> objects.
\<close>

record scene =
  s_time :: nat
  s_backboneParticles1 :: "BackboneParticle list"
  s_backboneParticles2 :: "BackboneParticle list"
  s_basePairs :: "BasePair list"
  s_allPoints :: "point list"
  s_lastFrameTime :: real
  s_sets :: "addr \<Rightarrow> nat set"

text \<open>
  What the component sees of its host: the list of scheduled animation-frame callbacks
  (their handles), the last handle given out, the reference \<open>animationFrameRef\<close>, the
  number of drawing contexts acquired, and the drawing calls the canvas has received.
\<close>

record host =
  h_pending :: "nat list"
  h_next :: nat
  h_ref :: "nat option"
  h_contexts :: nat
  h_canvas :: "draw list"

text \<open>
  \<open>animationFrameRef.current = requestAnimationFrame(animate)\<close>. The host hands out a
  fresh handle, greater than zero, and appends the callback to its list.
\<close>

definition requestAnimationFrame :: "host \<Rightarrow> host" where
  "requestAnimationFrame h =
     (let handle = h_next h + 1
      in h\<lparr> h_pending := h_pending h @ [handle], h_next := handle, h_ref := Some handle \<rparr>)"

text \<open>
  The remainder \<open>a % b\<close> of JavaScript, for a divisor that is not zero. The remainder
  of two doubles is a double: the operation does not round.
\<close>

definition js_rem :: "real \<Rightarrow> real \<Rightarrow> real" where
  "js_rem a b = a - b * of_int (if a / b < 0 then \<lceil>a / b\<rceil> else \<lfloor>a / b\<rfloor>)"

subsection \<open>Initialisation\<close>

text \<open>
  One round of the loop of lines 157 to 161. The three constructors of round \<open>i\<close>
  draw 17 values, \<open>g (17 * i)\<close> onwards, and allocate two sets.
\<close>

definition init_step :: "(nat \<Rightarrow> real) \<Rightarrow> nat \<Rightarrow> scene \<Rightarrow> scene" where
  "init_step g i s =
     s\<lparr> s_backboneParticles1 :=
          s_backboneParticles1 s @ [BackboneParticle_new i 1 (\<lambda>k. g (17 * i + k)) (2 * i)],
        s_backboneParticles2 :=
          s_backboneParticles2 s
            @ [BackboneParticle_new i 2 (\<lambda>k. g (17 * i + 6 + k)) (2 * i + 1)],
        s_basePairs := s_basePairs s @ [BasePair_new i (\<lambda>k. g (17 * i + 12 + k))],
        s_sets := (s_sets s)(2 * i := {}, 2 * i + 1 := {}) \<rparr>"

definition init :: "(nat \<Rightarrow> real) \<Rightarrow> scene" where
  "init g =
     fold (init_step g) [0..<numBasePairs]
       \<lparr> s_time = 0, s_backboneParticles1 = [], s_backboneParticles2 = [],
         s_basePairs = [], s_allPoints = [], s_lastFrameTime = 0, s_sets = (\<lambda>a. {}) \<rparr>"

subsection \<open>One frame\<close>

text \<open>\<open>points.forEach(p => p.connections.clear())\<close>, lines 194 and 195.\<close>

definition clear_connections :: "point list \<Rightarrow> (addr \<Rightarrow> nat set) \<Rightarrow> (addr \<Rightarrow> nat set)" where
  "clear_connections pts sets = fold (\<lambda>p st. st(pt_connections p := {})) pts sets"

text \<open>
  The body of the inner loop of the short-range link pass, lines 202 to 216, at the
  sorted positions \<open>i\<close> and \<open>j\<close>. \<open>r i j\<close> is the value of the call \<open>random()\<close>
  there.
\<close>

definition link_body ::
  "(nat \<Rightarrow> nat \<Rightarrow> jsnum) \<Rightarrow> point list \<Rightarrow> nat \<Rightarrow> nat
     \<Rightarrow> (addr \<Rightarrow> nat set) \<times> draw list \<Rightarrow> (addr \<Rightarrow> nat set) \<times> draw list" where
  "link_body r allPoints i j st =
     (let (sets, out) = st;
          p1 = allPoints ! i;
          p2 = allPoints ! j;
          d = dist_js (pt_x p1) (pt_y p1) (pt_z p1) (pt_x p2) (pt_y p2) (pt_z p2)
      in if d < 80 \<and> js_gt (r i j) (Fin (fl 0.7))
         then let opacity = map_js d 0 80 0.3 0.05
                              * map_js (min (pt_z p1) (pt_z p2)) (- HELIX_RADIUS) HELIX_RADIUS 0.3 1;
                  sets1 = sets(pt_connections p1 := insert j (sets (pt_connections p1)));
                  sets2 = sets1(pt_connections p2 := insert i (sets1 (pt_connections p2)))
              in (sets2,
                  out @ [StrokeLine 1 (Rgba 60 60 60 opacity) (pt_x p1) (pt_y p1) (pt_x p2) (pt_y p2)])
         else (sets, out))"

text \<open>
  The parts of the inner loop's body by name: the condition of line 206 and the line
  stroked there.
\<close>

definition link_gate :: "(nat \<Rightarrow> nat \<Rightarrow> jsnum) \<Rightarrow> point list \<Rightarrow> nat \<Rightarrow> nat \<Rightarrow> bool" where
  "link_gate r allPoints i j =
     (let p1 = allPoints ! i;
          p2 = allPoints ! j;
          d = dist_js (pt_x p1) (pt_y p1) (pt_z p1) (pt_x p2) (pt_y p2) (pt_z p2)
      in d < 80 \<and> js_gt (r i j) (Fin (fl 0.7)))"

definition link_stroke :: "point list \<Rightarrow> nat \<Rightarrow> nat \<Rightarrow> draw" where
  "link_stroke allPoints i j =
     (let p1 = allPoints ! i;
          p2 = allPoints ! j;
          d = dist_js (pt_x p1) (pt_y p1) (pt_z p1) (pt_x p2) (pt_y p2) (pt_z p2);
          opacity = map_js d 0 80 0.3 0.05
                      * map_js (min (pt_z p1) (pt_z p2)) (- HELIX_RADIUS) HELIX_RADIUS 0.3 1
      in StrokeLine 1 (Rgba 60 60 60 opacity) (pt_x p1) (pt_y p1) (pt_x p2) (pt_y p2))"

text \<open>The two nested loops of lines 199 to 218.\<close>

definition short_range_links ::
  "(nat \<Rightarrow> nat \<Rightarrow> jsnum) \<Rightarrow> point list
     \<Rightarrow> (addr \<Rightarrow> nat set) \<times> draw list \<Rightarrow> (addr \<Rightarrow> nat set) \<times> draw list" where
  "short_range_links r allPoints st =
     fold (\<lambda>i. fold (\<lambda>j. link_body r allPoints i j) [i + 1..<length allPoints])
       [0..<length allPoints] st"

text \<open>The body of the base-pair pass, lines 223 to 247; the line width is 1.5.\<close>

definition draw_base_pair :: "bp_point \<Rightarrow> draw list" where
  "draw_base_pair bp =
     (let bond =
            (if bp_isConnected bp
             then let depthFactor =
                        map_js (min (bp_z1 bp) (bp_z2 bp)) (- HELIX_RADIUS) HELIX_RADIUS 0.3 1;
                      opacity = (bp_opacity bp / 255) * depthFactor * bp_strength bp
                  in [StrokeLine 1.5 (Rgba 80 40 120 opacity)
                        (bp_x1 bp) (bp_y bp) (bp_x2 bp) (bp_y bp)]
             else []);
          baseSize = bp_size bp
                       * map_js (min (bp_z1 bp) (bp_z2 bp)) (- HELIX_RADIUS) HELIX_RADIUS 0.8 1.3;
          baseOpacity = (bp_opacity bp / 255)
                          * map_js (min (bp_z1 bp) (bp_z2 bp)) (- HELIX_RADIUS) HELIX_RADIUS 0.4 1;
          baseColor = (if bp_type bp = GC then Rgba 120 60 40 baseOpacity
                       else Rgba 60 120 40 baseOpacity)
      in bond @ [FillArc baseColor (bp_x1 bp) (bp_y bp) (baseSize / 2) 0 TWO_PI,
                 FillArc baseColor (bp_x2 bp) (bp_y bp) (baseSize / 2) 0 TWO_PI])"

definition base_pair_pass :: "bp_point list \<Rightarrow> draw list" where
  "base_pair_pass basePairPoints = concat (map draw_base_pair basePairPoints)"

text \<open>
  The values of \<open>Math.random()\<close> one frame sees: by the update of base pair \<open>k\<close>, and
  by the gate of the link pass at the sorted positions \<open>i\<close> and \<open>j\<close>.
\<close>

record frame_draws =
  d_basePair :: "nat \<Rightarrow> real"
  d_link :: "nat \<Rightarrow> nat \<Rightarrow> real"

text \<open>
  The frame, lines 180 to 248: the background, the counter, the update of every entity,
  the sort by depth, the clearing of the sets, the link pass and the base-pair pass. The
  passes of lines 250 to 305 read the points and issue further drawing calls; they assign
  no variable and no field, and are left out.
\<close>

definition frame :: "frame_draws \<Rightarrow> host \<times> scene \<Rightarrow> host \<times> scene" where
  "frame fd st =
     (let (h, s) = st;
          h1 = h\<lparr> h_canvas := h_canvas h @ [FillRect (Hex ''#F0EEE6'') 0 0 width height] \<rparr>;
          time = s_time s + 1;
          backbone1Points =
            map (\<lambda>p. BackboneParticle_update p (real time)) (s_backboneParticles1 s);
          backbone2Points =
            map (\<lambda>p. BackboneParticle_update p (real time)) (s_backboneParticles2 s);
          updated =
            map (\<lambda>(k, p). BasePair_update (d_basePair fd k) p (real time))
              (enumerate 0 (s_basePairs s));
          basePairPoints = map snd updated;
          allPoints = sort_key pt_z (backbone1Points @ backbone2Points);
          sets1 = clear_connections backbone2Points
                    (clear_connections backbone1Points (s_sets s));
          (sets2, links) =
            short_range_links (\<lambda>i j. random_js (d_link fd i j) None None) allPoints (sets1, []);
          h2 = h1\<lparr> h_canvas := h_canvas h1 @ links @ base_pair_pass basePairPoints \<rparr>
      in (h2, s\<lparr> s_time := time, s_basePairs := map fst updated,
                 s_allPoints := allPoints, s_sets := sets2 \<rparr>))"

subsection \<open>The scheduler and the life cycle\<close>

text \<open>
  \<open>animate\<close>, lines 167 to 309. \<open>!lastFrameTime\<close> holds exactly when the marker is
  zero. The two subtractions are rounded.
\<close>

definition animate :: "frame_draws \<Rightarrow> real \<Rightarrow> host \<times> scene \<Rightarrow> host \<times> scene" where
  "animate fd currentTime st =
     (let (h, s) = st
      in if s_lastFrameTime s = 0
         then (requestAnimationFrame h, s\<lparr> s_lastFrameTime := currentTime \<rparr>)
         else let deltaTime = fl (currentTime - s_lastFrameTime s);
                  (h1, s1) =
                    (if deltaTime \<ge> frameInterval
                     then let remainder = js_rem deltaTime frameInterval
                          in frame fd (h, s\<lparr> s_lastFrameTime := fl (currentTime - remainder) \<rparr>)
                     else (h, s))
              in (requestAnimationFrame h1, s1))"

text \<open>
  The effect, lines 7 to 311, given whether the canvas is there. Without a canvas it
  returns at once and there is no scene and no cleanup. With the canvas, which is the
  component's own element, \<open>getContext('2d')\<close> yields the drawing context.
\<close>

definition mount :: "bool \<Rightarrow> (nat \<Rightarrow> real) \<Rightarrow> host \<Rightarrow> host \<times> scene option" where
  "mount canvas g h =
     (if \<not> canvas then (h, None)
      else (requestAnimationFrame (h\<lparr> h_contexts := h_contexts h + 1 \<rparr>), Some (init g)))"

text \<open>
  The cleanup the effect returns, lines 313 to 321. It exists only when the canvas and
  its context do; a handle is truthy when it is not zero.
\<close>

definition cleanup :: "host \<Rightarrow> host" where
  "cleanup h =
     (let h1 = (case h_ref h of
                  Some handle \<Rightarrow>
                    if handle \<noteq> 0
                    then h\<lparr> h_pending := removeAll handle (h_pending h), h_ref := None \<rparr>
                    else h
                | None \<Rightarrow> h)
      in h1\<lparr> h_canvas := h_canvas h1 @ [ClearRect 0 0 width height] \<rparr>)"

text \<open>
  The host runs the callbacks that are scheduled when an animation frame begins, each
  with the frame's timestamp; all of them are \<open>animate\<close>.
\<close>

definition host_frame :: "frame_draws \<Rightarrow> real \<Rightarrow> host \<times> scene \<Rightarrow> host \<times> scene" where
  "host_frame fd currentTime st =
     (let (h, s) = st
      in fold (\<lambda>handle. animate fd currentTime) (h_pending h) (h\<lparr> h_pending := [] \<rparr>, s))"

definition host_frames :: "(frame_draws \<times> real) list \<Rightarrow> host \<times> scene \<Rightarrow> host \<times> scene" where
  "host_frames cbs st = fold (\<lambda>(fd, currentTime). host_frame fd currentTime) cbs st"

subsection \<open>Runs of the scheduler\<close>

text \<open>
  Timestamps \<open>c\<close> that follow the timestamp \<open>t\<close>, each no earlier than the one before
  it and less than \<open>gap\<close> after it.
\<close>

fun spaced_by :: "real \<Rightarrow> real \<Rightarrow> real list \<Rightarrow> bool" where
  "spaced_by gap t [] = True"
| "spaced_by gap t (c # cs) = (t \<le> c \<and> c - t < gap \<and> spaced_by gap c cs)"

text \<open>
  Between two animation frames the component has exactly one callback scheduled, the one
  whose handle \<open>animationFrameRef\<close> holds.
\<close>

definition one_callback_pending :: "host \<Rightarrow> bool" where
  "one_callback_pending h =
     (h_pending h = [h_next h] \<and> h_ref h = Some (h_next h) \<and> 0 < h_next h)"

text \<open>
  What \<open>animate\<close> does to the marker \<open>lastFrameTime\<close> and to the counter
  \<open>time\<close>, as a function on the pair of them.
\<close>

definition sched_step :: "real \<Rightarrow> real \<times> nat \<Rightarrow> real \<times> nat" where
  "sched_step currentTime st =
     (let (marker, n) = st
      in if marker = 0 then (currentTime, n)
         else let deltaTime = fl (currentTime - marker)
              in if deltaTime \<ge> frameInterval
                 then (fl (currentTime - js_rem deltaTime frameInterval), n + 1)
                 else (marker, n))"

text \<open>
  Successive frames: the animation loop adds one to \<open>time\<close> and then calls
  \<open>update(time)\<close>; \<open>us\<close> lists the values of \<open>Math.random()\<close> of the calls.
\<close>

fun BasePair_updates :: "real list \<Rightarrow> real \<Rightarrow> BasePair \<Rightarrow> BasePair" where
  "BasePair_updates [] time this = this"
| "BasePair_updates (u # us) time this =
     BasePair_updates us (time + 1) (fst (BasePair_update u this (time + 1)))"

section \<open>Properties\<close>

subsection \<open>Rounding to doubles\<close>

lemma round_even_int: "round_even (of_int n) = n"
  by (simp add: round_even_def)

lemma round_even_cases: "round_even y = \<lfloor>y\<rfloor> \<or> round_even y = \<lfloor>y\<rfloor> + 1"
  by (simp add: round_even_def Let_def)

lemma round_even_le:
  assumes "y \<le> of_int n"
  shows "round_even y \<le> n"
proof (cases "y = of_int n")
  case True
  then show ?thesis by (simp add: round_even_int)
next
  case False
  with assms have "y < of_int n" by simp
  then have "\<lfloor>y\<rfloor> < n" by (simp add: floor_less_iff)
  with round_even_cases [of y] show ?thesis by auto
qed

lemma round_even_ge:
  assumes "of_int n \<le> y"
  shows "n \<le> round_even y"
proof -
  from assms have "n \<le> \<lfloor>y\<rfloor>" by (simp add: le_floor_iff)
  with round_even_cases [of y] show ?thesis by auto
qed

lemma round_even_near:
  assumes "\<bar>y - of_int n\<bar> < 1 / 2"
  shows "round_even y = n"
proof (cases "of_int n \<le> y")
  case True
  with assms have "\<lfloor>y\<rfloor> = n" by (intro floor_unique) auto
  with assms True show ?thesis by (simp add: round_even_def Let_def)
next
  case False
  with assms have f: "\<lfloor>y\<rfloor> = n - 1" by (intro floor_unique) auto
  with assms False have "1 / 2 < y - of_int \<lfloor>y\<rfloor>" by auto
  with f show ?thesis by (simp add: round_even_def Let_def)
qed

lemma round_even_tie:
  assumes "y = of_int n + 1 / 2"
  shows "round_even y = (if even n then n else n + 1)"
proof -
  from assms have "\<lfloor>y\<rfloor> = n" by (intro floor_unique) auto
  with assms show ?thesis by (simp add: round_even_def Let_def)
qed

lemma ulp_pos: "0 < ulp x"
  by (simp add: ulp_def)

lemma ulp_binade:
  assumes "0 < x" and "2 powr of_int e \<le> x" and "x < 2 powr of_int (e + 1)"
  shows "ulp x = 2 powr (of_int e - 52)"
proof -
  from assms have "\<lfloor>log 2 x\<rfloor> = e"
    by (subst floor_log_eq_powr_iff) (simp_all add: add.commute)
  with assms(1) show ?thesis by (simp add: ulp_def)
qed

lemma binade_exists:
  assumes "0 < x"
  shows "2 powr of_int \<lfloor>log 2 x\<rfloor> \<le> x \<and> x < 2 powr of_int (\<lfloor>log 2 x\<rfloor> + 1)"
  using floor_log_eq_powr_iff [of x 2 "\<lfloor>log 2 x\<rfloor>"] assms by (simp add: add.commute)


lemma fl_zero: "fl 0 = 0"
  by (simp add: fl_def)

lemma fl_pos_eq:
  assumes "0 < x"
  shows "fl x = of_int (round_even (x / ulp x)) * ulp x"
  using assms by (simp add: fl_def)

lemma fl_minus: "fl (- x) = - fl x"
  by (simp add: fl_def ulp_def sgn_minus)

lemma quotient_range:
  assumes "0 < x" and "2 powr of_int e \<le> x" and "x < 2 powr of_int (e + 1)"
  shows "2 ^ 52 \<le> x / ulp x" and "x / ulp x < 2 ^ 53"
proof -
  have u: "ulp x = 2 powr (of_int e - 52)" by (rule ulp_binade [OF assms])
  have a: "2 powr of_int e = 2 ^ 52 * ulp x"
    unfolding u by (simp add: powr_diff)
  have b: "2 powr of_int (e + 1) = 2 ^ 53 * ulp x"
    unfolding u by (simp add: powr_diff powr_add)
  from assms(2) a ulp_pos [of x] show "2 ^ 52 \<le> x / ulp x"
    by (simp add: pos_le_divide_eq)
  from assms(3) b ulp_pos [of x] show "x / ulp x < 2 ^ 53"
    by (simp add: pos_divide_less_eq)
qed

lemma fl_range:
  assumes "0 < x" and "2 powr of_int e \<le> x" and "x < 2 powr of_int (e + 1)"
  shows "2 ^ 52 \<le> round_even (x / ulp x)" and "round_even (x / ulp x) \<le> 2 ^ 53"
proof -
  note q = quotient_range [OF assms]
  from q(1) have "of_int (2 ^ 52) \<le> x / ulp x" by simp
  then show "2 ^ 52 \<le> round_even (x / ulp x)" by (rule round_even_ge)
  from q(2) have "x / ulp x \<le> of_int (2 ^ 53)" by simp
  then show "round_even (x / ulp x) \<le> 2 ^ 53" by (rule round_even_le)
qed

lemma fl_binade:
  assumes "0 < x" and "2 powr of_int e \<le> x" and "x < 2 powr of_int (e + 1)"
  shows "2 powr of_int e \<le> fl x" and "fl x \<le> 2 powr of_int (e + 1)"
proof -
  have u: "ulp x = 2 powr (of_int e - 52)" by (rule ulp_binade [OF assms])
  have a: "2 powr of_int e = 2 ^ 52 * ulp x"
    unfolding u by (simp add: powr_diff)
  have b: "2 powr of_int (e + 1) = 2 ^ 53 * ulp x"
    unfolding u by (simp add: powr_diff powr_add)
  note r = fl_range [OF assms]
  from r(1) have "(2 ^ 52 :: real) \<le> of_int (round_even (x / ulp x))"
    by (metis of_int_le_iff of_int_numeral of_int_power)
  with ulp_pos [of x] show "2 powr of_int e \<le> fl x"
    unfolding a fl_pos_eq [OF assms(1)] by simp
  from r(2) have "of_int (round_even (x / ulp x)) \<le> (2 ^ 53 :: real)"
    by (metis of_int_le_iff of_int_numeral of_int_power)
  with ulp_pos [of x] show "fl x \<le> 2 powr of_int (e + 1)"
    unfolding b fl_pos_eq [OF assms(1)] by simp
qed

lemma fl_pos:
  assumes "0 < x"
  shows "0 < fl x"
proof -
  note b = binade_exists [OF assms]
  from fl_binade(1) [OF assms] b have "2 powr of_int \<lfloor>log 2 x\<rfloor> \<le> fl x" by blast
  moreover have "(0::real) < 2 powr of_int \<lfloor>log 2 x\<rfloor>" by simp
  ultimately show ?thesis by linarith
qed

lemma fl_nonneg:
  assumes "0 \<le> x"
  shows "0 \<le> fl x"
  using assms fl_pos [of x] fl_zero by (cases "x = 0") (auto simp add: less_imp_le)

text \<open>Evaluation in a known binade.\<close>

lemma fl_near:
  assumes "0 < x" and "2 powr of_int e \<le> x" and "x < 2 powr of_int (e + 1)"
    and "\<bar>x / 2 powr (of_int e - 52) - of_int n\<bar> < 1 / 2"
    and "r = of_int n * 2 powr (of_int e - 52)"
  shows "fl x = r"
proof -
  have u: "ulp x = 2 powr (of_int e - 52)" by (rule ulp_binade [OF assms(1-3)])
  from assms(4) have "round_even (x / ulp x) = n" unfolding u by (rule round_even_near)
  with assms(5) show ?thesis by (simp add: fl_pos_eq [OF assms(1)] u)
qed

lemma fl_tie:
  assumes "0 < x" and "2 powr of_int e \<le> x" and "x < 2 powr of_int (e + 1)"
    and "x / 2 powr (of_int e - 52) = of_int n + 1 / 2"
    and "r = of_int (if even n then n else n + 1) * 2 powr (of_int e - 52)"
  shows "fl x = r"
proof -
  have u: "ulp x = 2 powr (of_int e - 52)" by (rule ulp_binade [OF assms(1-3)])
  from assms(4) have "round_even (x / ulp x) = (if even n then n else n + 1)"
    unfolding u by (rule round_even_tie)
  with assms(5) show ?thesis by (simp add: fl_pos_eq [OF assms(1)] u)
qed

lemma dbl_quotient:
  assumes "0 < c" and "fl c = c"
  shows "c / ulp c = of_int (round_even (c / ulp c))"
proof -
  from assms have "of_int (round_even (c / ulp c)) * ulp c = c"
    by (simp add: fl_pos_eq)
  with ulp_pos [of c] show ?thesis by (simp add: field_simps)
qed

lemma floor_log_mono:
  assumes "0 < x" and "x \<le> y"
  shows "\<lfloor>log 2 x\<rfloor> \<le> \<lfloor>log 2 y\<rfloor>"
  using assms by (intro floor_mono) simp

lemma fl_le_dbl:
  assumes "0 < x" and "x \<le> c" and "fl c = c"
  shows "fl x \<le> c"
proof -
  from assms have c: "0 < c" by simp
  note bx = binade_exists [OF assms(1)] and bc = binade_exists [OF c]
  from floor_log_mono [OF assms(1,2)] have le: "\<lfloor>log 2 x\<rfloor> \<le> \<lfloor>log 2 c\<rfloor>" .
  show ?thesis
  proof (cases "\<lfloor>log 2 x\<rfloor> = \<lfloor>log 2 c\<rfloor>")
    case True
    with assms(1) c have u: "ulp x = ulp c" by (simp add: ulp_def)
    from assms(2) ulp_pos [of c] have "x / ulp c \<le> c / ulp c"
      by (simp add: divide_right_mono)
    with dbl_quotient [OF c assms(3)]
    have "x / ulp c \<le> of_int (round_even (c / ulp c))" by simp
    then have "round_even (x / ulp c) \<le> round_even (c / ulp c)" by (rule round_even_le)
    then have "of_int (round_even (x / ulp c)) * ulp c
                 \<le> of_int (round_even (c / ulp c)) * ulp c"
      using ulp_pos [of c] by (simp add: mult_right_mono)
    with assms(3) show ?thesis
      by (simp add: fl_pos_eq [OF assms(1)] fl_pos_eq [OF c] u)
  next
    case False
    with le have "\<lfloor>log 2 x\<rfloor> + 1 \<le> \<lfloor>log 2 c\<rfloor>" by simp
    then have "(2::real) powr of_int (\<lfloor>log 2 x\<rfloor> + 1) \<le> 2 powr of_int \<lfloor>log 2 c\<rfloor>"
      by (simp only: powr_le_cancel_iff one_less_numeral_iff semiring_norm of_int_le_iff)
    moreover from fl_binade(2) [OF assms(1)] bx
    have "fl x \<le> 2 powr of_int (\<lfloor>log 2 x\<rfloor> + 1)" by blast
    ultimately show ?thesis using bc by linarith
  qed
qed

lemma fl_ge_dbl:
  assumes "0 < c" and "c \<le> x" and "fl c = c"
  shows "c \<le> fl x"
proof -
  from assms have x: "0 < x" by simp
  note bx = binade_exists [OF x] and bc = binade_exists [OF assms(1)]
  from floor_log_mono [OF assms(1,2)] have le: "\<lfloor>log 2 c\<rfloor> \<le> \<lfloor>log 2 x\<rfloor>" .
  show ?thesis
  proof (cases "\<lfloor>log 2 x\<rfloor> = \<lfloor>log 2 c\<rfloor>")
    case True
    with assms(1) x have u: "ulp x = ulp c" by (simp add: ulp_def)
    from assms(2) ulp_pos [of c] have "c / ulp c \<le> x / ulp c"
      by (simp add: divide_right_mono)
    with dbl_quotient [OF assms(1,3)]
    have "of_int (round_even (c / ulp c)) \<le> x / ulp c" by simp
    then have "round_even (c / ulp c) \<le> round_even (x / ulp c)" by (rule round_even_ge)
    then have "of_int (round_even (c / ulp c)) * ulp c
                 \<le> of_int (round_even (x / ulp c)) * ulp c"
      using ulp_pos [of c] by (simp add: mult_right_mono)
    with assms(3) show ?thesis
      by (simp add: fl_pos_eq [OF assms(1)] fl_pos_eq [OF x] u)
  next
    case False
    with le have "\<lfloor>log 2 c\<rfloor> + 1 \<le> \<lfloor>log 2 x\<rfloor>" by simp
    then have "(2::real) powr of_int (\<lfloor>log 2 c\<rfloor> + 1) \<le> 2 powr of_int \<lfloor>log 2 x\<rfloor>"
      by (simp only: powr_le_cancel_iff one_less_numeral_iff semiring_norm of_int_le_iff)
    moreover from fl_binade(1) [OF x] bx
    have "2 powr of_int \<lfloor>log 2 x\<rfloor> \<le> fl x" by blast
    ultimately show ?thesis using bc by linarith
  qed
qed

lemma fl_idem_pos:
  assumes "0 < x"
  shows "fl (fl x) = fl x"
proof -
  define e where "e = \<lfloor>log 2 x\<rfloor>"
  define n where "n = round_even (x / ulp x)"
  note b = binade_exists [OF assms, folded e_def]
  from b have lo: "2 powr of_int e \<le> x" and hi: "x < 2 powr of_int (e + 1)" by simp_all
  have u: "ulp x = 2 powr (of_int e - 52)" by (rule ulp_binade [OF assms lo hi])
  have y: "fl x = of_int n * ulp x" by (simp add: fl_pos_eq [OF assms] n_def)
  note r = fl_range [OF assms lo hi, folded n_def]
  have ypos: "0 < fl x" by (rule fl_pos [OF assms])
  note yb = fl_binade [OF assms lo hi]
  show ?thesis
  proof (cases "fl x < 2 powr of_int (e + 1)")
    case True
    have uy: "ulp (fl x) = ulp x" unfolding u by (rule ulp_binade [OF ypos yb(1) True])
    have "fl x / ulp (fl x) = fl x / ulp x" by (simp only: uy)
    also have "\<dots> = of_int n * ulp x / ulp x" by (simp only: y)
    also have "\<dots> = of_int n" using ulp_pos [of x] by simp
    finally have "fl x / ulp (fl x) = of_int n" .
    then have "round_even (fl x / ulp (fl x)) = n" by (simp add: round_even_int)
    then have "fl (fl x) = of_int n * ulp (fl x)" by (simp only: fl_pos_eq [OF ypos])
    also have "\<dots> = of_int n * ulp x" by (simp only: uy)
    also have "\<dots> = fl x" by (simp only: y)
    finally show ?thesis .
  next
    case False
    with yb(2) have top: "fl x = 2 powr of_int (e + 1)" by simp
    have lo': "2 powr of_int (e + 1) \<le> fl x" by (simp add: top)
    have hi': "fl x < 2 powr of_int (e + 1 + 1)" unfolding top
      by (simp only: powr_less_cancel_iff one_less_numeral_iff semiring_norm of_int_less_iff)
    have uy: "ulp (fl x) = 2 powr (of_int (e + 1) - 52)"
      by (rule ulp_binade [OF ypos lo' hi'])
    have "fl x / ulp (fl x) = fl x / 2 powr (of_int (e + 1) - 52)" by (simp only: uy)
    also have "\<dots> = 2 powr of_int (e + 1) / 2 powr (of_int (e + 1) - 52)" by (simp only: top)
    also have "\<dots> = of_int (2 ^ 52)" by (simp add: powr_diff powr_add)
    finally have "fl x / ulp (fl x) = of_int (2 ^ 52)" .
    then have "round_even (fl x / ulp (fl x)) = 2 ^ 52" by (simp only: round_even_int)
    then have "fl (fl x) = 2 ^ 52 * ulp (fl x)"
      by (simp only: fl_pos_eq [OF ypos]) simp
    also have "\<dots> = 2 ^ 52 * 2 powr (of_int (e + 1) - 52)" by (simp only: uy)
    also have "\<dots> = 2 powr of_int (e + 1)" by (simp add: powr_diff powr_add)
    also have "\<dots> = fl x" by (simp only: top)
    finally show ?thesis .
  qed
qed

lemma fl_idem: "fl (fl x) = fl x"
proof (cases "0 < x")
  case True
  then show ?thesis by (rule fl_idem_pos)
next
  case False
  show ?thesis
  proof (cases "x = 0")
    case True
    then show ?thesis by (simp add: fl_zero)
  next
    case nz: False
    with False have "0 < - x" by simp
    from fl_idem_pos [OF this] show ?thesis by (simp add: fl_minus)
  qed
qed

text \<open>Rounding moves a number by at most half a unit in the last place.\<close>

lemma round_even_error: "\<bar>of_int (round_even y) - y\<bar> \<le> 1 / 2"
proof -
  have "of_int \<lfloor>y\<rfloor> \<le> y" and "y < of_int \<lfloor>y\<rfloor> + 1" by linarith+
  then show ?thesis by (auto simp add: round_even_def Let_def)
qed

lemma fl_error_pos:
  assumes "0 < x"
  shows "\<bar>fl x - x\<bar> \<le> x / 2 ^ 53"
proof -
  note b = binade_exists [OF assms]
  from b have lo: "2 powr of_int \<lfloor>log 2 x\<rfloor> \<le> x"
    and hi: "x < 2 powr of_int (\<lfloor>log 2 x\<rfloor> + 1)" by simp_all
  have u: "ulp x = 2 powr (of_int \<lfloor>log 2 x\<rfloor> - 52)" by (rule ulp_binade [OF assms lo hi])
  have "2 powr of_int \<lfloor>log 2 x\<rfloor> = 2 ^ 52 * ulp x"
    unfolding u by (simp add: powr_diff)
  with lo have ux: "2 ^ 52 * ulp x \<le> x" by simp
  have "fl x - x = (of_int (round_even (x / ulp x)) - x / ulp x) * ulp x"
    using ulp_pos [of x] by (simp add: fl_pos_eq [OF assms] field_simps)
  then have "\<bar>fl x - x\<bar> = \<bar>of_int (round_even (x / ulp x)) - x / ulp x\<bar> * ulp x"
    using ulp_pos [of x] by (simp add: abs_mult)
  also have "\<dots> \<le> 1 / 2 * ulp x"
    using ulp_pos [of x] round_even_error [of "x / ulp x"] by (intro mult_right_mono) simp_all
  finally have "\<bar>fl x - x\<bar> \<le> ulp x / 2" by simp
  with ux show ?thesis by simp
qed

lemma fl_error:
  assumes "0 \<le> x" and "x \<le> T"
  shows "\<bar>fl x - x\<bar> \<le> T / 2 ^ 53"
proof (cases "x = 0")
  case True
  with assms show ?thesis by (simp add: fl_zero)
next
  case False
  with assms have "0 < x" by simp
  from fl_error_pos [OF this] assms(2) show ?thesis by simp
qed

text \<open>
  Some doubles: 30, 50, 80, those nearest to 0.95 and to 0.7, and the frame interval,
  written 33.333333333333336.
\<close>

lemma fl_30: "fl 30 = 30"
  by (rule fl_near [where e = "4" and n = "8444249301319680"]) (simp_all add: powr_neg_numeral)

lemma fl_50: "fl 50 = 50"
  by (rule fl_near [where e = "5" and n = "7036874417766400"]) (simp_all add: powr_neg_numeral)

lemma fl_80: "fl 80 = 80"
  by (rule fl_near [where e = "6" and n = "5629499534213120"]) (simp_all add: powr_neg_numeral)

lemma fl_0_95: "fl (19 / 20) = 4278419646001971 / 4503599627370496"
  by (rule fl_near [where e = "-1" and n = "8556839292003942"]) (simp_all add: powr_neg_numeral)

lemma fl_0_7: "fl (7 / 10) = 3152519739159347 / 4503599627370496"
  by (rule fl_near [where e = "-1" and n = "6305039478318694"]) (simp_all add: powr_neg_numeral)

lemma fl_interval: "fl (100 / 3) = 4691249611844267 / 140737488355328"
  by (rule fl_near [where e = "5" and n = "4691249611844267"]) (simp_all add: powr_neg_numeral)

lemma frameInterval_value: "frameInterval = 4691249611844267 / 140737488355328"
  by (simp add: frameInterval_def targetFPS_def fl_interval)

subsection \<open>The helper \<open>random\<close>\<close>

lemma random_js_noarg: "random_js u None None = NaN"
  by (simp add: random_js_def)

lemma random_js_two: "random_js u (Some a) (Some b) = Fin (fl (fl (u * fl (b - a)) + a))"
  by (simp add: random_js_def)

text \<open>The dwell threshold \<open>random(30, 80)\<close> lies between 30 and 80, both included.\<close>

lemma random_js_dwell: "random_js u (Some 30) (Some 80) = Fin (fl (fl (u * 50) + 30))"
  by (simp add: random_js_two fl_50)

lemma dwell_ge_30:
  assumes "0 \<le> u"
  shows "30 \<le> fl (fl (u * 50) + 30)"
proof -
  from assms have "0 \<le> fl (u * 50)" by (intro fl_nonneg) simp
  then have "(30::real) \<le> fl (u * 50) + 30" by simp
  then show ?thesis by (intro fl_ge_dbl fl_30) simp_all
qed

lemma dwell_le_80:
  assumes "0 \<le> u" and "u < 1"
  shows "fl (fl (u * 50) + 30) \<le> 80"
proof -
  have "fl (u * 50) \<le> 50"
  proof (cases "u = 0")
    case True
    then show ?thesis by (simp add: fl_zero)
  next
    case False
    with assms show ?thesis by (intro fl_le_dbl fl_50) simp_all
  qed
  moreover from assms have "0 \<le> fl (u * 50)" by (intro fl_nonneg) simp
  ultimately have "0 < fl (u * 50) + 30" and "fl (u * 50) + 30 \<le> 80" by simp_all
  then show ?thesis by (intro fl_le_dbl fl_80)
qed

subsection \<open>Baseline offsets\<close>

lemma p_baseY_new: "p_baseY (BackboneParticle_new i s g a) = (real i - 40) * 8"
  by (simp add: BackboneParticle_new_def numBasePairs_def RISE_PER_BP_def)

lemma b_baseY_new: "b_baseY (BasePair_new i g) = (real i - 40) * 8"
  by (simp add: BasePair_new_def Let_def numBasePairs_def RISE_PER_BP_def)

text \<open>
  C2, as stated, fails: the baseline offset of index \<open>i\<close> is not the negative of the
  offset of index \<open>N - 1 - i\<close>. At index 0 the offset is \<open>-320\<close>, at index 79 it
  is \<open>312\<close>.
\<close>

theorem baseY_mirror_counterexample:
  "p_baseY (BackboneParticle_new 0 1 (\<lambda>k. 0) 0)
     \<noteq> - p_baseY (BackboneParticle_new (numBasePairs - 1 - 0) 1 (\<lambda>k. 0) 0)"
  by (simp add: p_baseY_new numBasePairs_def)

text \<open>
  C2, amended: for indices below \<open>numBasePairs\<close> the baseline offset of both
  kinds of entity is \<open>(i - N / 2) * RISE_PER_BP\<close> and strictly increasing in the index;
  it is antisymmetric about index \<open>N / 2\<close>, where it is zero, so the offsets of
  \<open>i\<close> and \<open>N - 1 - i\<close> add up to \<open>- RISE_PER_BP\<close> and those of \<open>i\<close> and
  \<open>N - i\<close> to zero.
\<close>

theorem baseY_monotone_offset_mirror:
  assumes "i < numBasePairs" and "j < numBasePairs"
  shows "p_baseY (BackboneParticle_new i s g a) = (real i - real numBasePairs / 2) * RISE_PER_BP
    \<and> b_baseY (BasePair_new i h) = p_baseY (BackboneParticle_new i s g a)
    \<and> (i < j \<longrightarrow>
         p_baseY (BackboneParticle_new i s g a) < p_baseY (BackboneParticle_new j s' g' a'))
    \<and> p_baseY (BackboneParticle_new i s g a)
         = - p_baseY (BackboneParticle_new (numBasePairs - 1 - i) s' g' a') - RISE_PER_BP
    \<and> (0 < i \<longrightarrow>
         p_baseY (BackboneParticle_new i s g a)
           = - p_baseY (BackboneParticle_new (numBasePairs - i) s' g' a'))"
  using assms
  by (simp add: p_baseY_new b_baseY_new numBasePairs_def RISE_PER_BP_def)

theorem baseY_monotone_offset_mirror_witness:
  "(3::nat) < numBasePairs \<and> (5::nat) < numBasePairs
   \<and> p_baseY (BackboneParticle_new 3 1 (\<lambda>k. 0) 0) = - 296
   \<and> b_baseY (BasePair_new 3 (\<lambda>k. 0)) = - 296
   \<and> p_baseY (BackboneParticle_new 3 1 (\<lambda>k. 0) 0) < p_baseY (BackboneParticle_new 5 2 (\<lambda>k. 0) 0)
   \<and> p_baseY (BackboneParticle_new (numBasePairs - 1 - 3) 2 (\<lambda>k. 0) 0) = 288
   \<and> p_baseY (BackboneParticle_new (numBasePairs - 3) 2 (\<lambda>k. 0) 0) = 296"
proof -
  have a: "(3::nat) < numBasePairs" and b: "(5::nat) < numBasePairs"
    by (simp_all add: numBasePairs_def)
  have e: "(real 3 - real numBasePairs / 2) * RISE_PER_BP = - 296"
    by (simp add: numBasePairs_def RISE_PER_BP_def)
  from baseY_monotone_offset_mirror
         [OF a b, where s = 1 and g = "\<lambda>k. 0" and h = "\<lambda>k. 0" and s' = 2 and g' = "\<lambda>k. 0"
            and a = 0 and a' = 0]
  show ?thesis using a b e by (simp add: RISE_PER_BP_def)
qed

subsection \<open>Strand phase\<close>

lemma rotation_eq:
  "pt_rotation (BackboneParticle_update p t)
     = fl (fl (fl (fl (real (p_bpIndex p) * ROTATION_PER_BP)
                     + fl (fl (t * animationSpeed) * p_entropy p))
                 + (if p_strand p = 1 then 0 else Math_PI))
             + fl (p_phaseNoise p * fl 0.1))"
  by (simp add: BackboneParticle_update_def Let_def)

text \<open>
  The doubles of one computation: index 0, time 1, entropy 0.9 and phase noise 0.5, for
  strand 1 and for strand 2.
\<close>

lemma rotation_value_1: "fl (1 / 100) = 5764607523034235 / 576460752303423488"
  by (rule fl_near [where e = "-7" and n = "5764607523034235"]) (simp_all add: powr_neg_numeral)

lemma rotation_value_2: "fl (5764607523034235 / 576460752303423488) = 5764607523034235 / 576460752303423488"
  by (rule fl_near [where e = "-7" and n = "5764607523034235"]) (simp_all add: powr_neg_numeral)

lemma rotation_value_3: "fl (46730671726813450782473491081855 / 5192296858534827628530496329220096) = 1297036692682703 / 144115188075855872"
  by (rule fl_near [where e = "-7" and n = "5188146770730812"]) (simp_all add: powr_neg_numeral)

lemma rotation_value_4: "fl (1297036692682703 / 144115188075855872) = 1297036692682703 / 144115188075855872"
  by (rule fl_near [where e = "-7" and n = "5188146770730812"]) (simp_all add: powr_neg_numeral)

lemma rotation_value_5: "fl (1 / 10) = 3602879701896397 / 36028797018963968"
  by (rule fl_near [where e = "-4" and n = "7205759403792794"]) (simp_all add: powr_neg_numeral)

lemma rotation_value_6: "fl (3602879701896397 / 72057594037927936) = 3602879701896397 / 72057594037927936"
  by (rule fl_near [where e = "-5" and n = "7205759403792794"]) (simp_all add: powr_neg_numeral)

lemma rotation_value_8: "fl (8502796096475497 / 144115188075855872) = 8502796096475497 / 144115188075855872"
  by (rule fl_near [where e = "-5" and n = "8502796096475497"]) (simp_all add: powr_neg_numeral)

lemma rotation_value_9: "fl (454048252822502863 / 144115188075855872) = 7094503950351607 / 2251799813685248"
  by (rule fl_near [where e = "1" and n = "7094503950351607"]) (simp_all add: powr_neg_numeral)

lemma rotation_value_10: "fl (230627006113147821 / 72057594037927936) = 7207093941035869 / 2251799813685248"
  by (rule fl_near [where e = "1" and n = "7207093941035869"]) (simp_all add: powr_neg_numeral)

lemma rotation_value_11: "fl (461254012226295657 / 144115188075855872) = 3603546970517935 / 1125899906842624"
  by (rule fl_near [where e = "1" and n = "7207093941035870"]) (simp_all add: powr_neg_numeral)

text \<open>
  C5, as stated, fails: with equal entropy (the double written 0.9) and equal phase noise
  0.5, at index 0 and time 1, the angle of strand 1 is the double written
  0.059000000000000004 and the angle of strand 2 the double written 3.200592653589793,
  while the sum of the angle of strand 1 and \<open>Math.PI\<close> is another double, written
  3.2005926535897933.
\<close>

theorem strand_phase_noise_counterexample:
  "pt_rotation (BackboneParticle_update (BackboneParticle_new 0 1 (\<lambda>k. 0) 0\<lparr> p_entropy := 8106479329266893 / 2 ^ 53, p_phaseNoise := 1 / 2 \<rparr>) 1) = (8502796096475497 / 2 ^ 57)
   \<and> pt_rotation (BackboneParticle_update (BackboneParticle_new 0 2 (\<lambda>k. 0) 1\<lparr> p_entropy := 8106479329266893 / 2 ^ 53, p_phaseNoise := 1 / 2 \<rparr>) 1) = (7207093941035869 / 2 ^ 51)
   \<and> fl (pt_rotation (BackboneParticle_update (BackboneParticle_new 0 1 (\<lambda>k. 0) 0\<lparr> p_entropy := 8106479329266893 / 2 ^ 53, p_phaseNoise := 1 / 2 \<rparr>) 1) + Math_PI) = (3603546970517935 / 2 ^ 50)
   \<and> pt_rotation (BackboneParticle_update (BackboneParticle_new 0 2 (\<lambda>k. 0) 1\<lparr> p_entropy := 8106479329266893 / 2 ^ 53, p_phaseNoise := 1 / 2 \<rparr>) 1)
       \<noteq> fl (pt_rotation (BackboneParticle_update (BackboneParticle_new 0 1 (\<lambda>k. 0) 0\<lparr> p_entropy := 8106479329266893 / 2 ^ 53, p_phaseNoise := 1 / 2 \<rparr>) 1) + Math_PI)
   \<and> pt_rotation (BackboneParticle_update (BackboneParticle_new 0 2 (\<lambda>k. 0) 1\<lparr> p_entropy := 8106479329266893 / 2 ^ 53, p_phaseNoise := 1 / 2 \<rparr>) 1)
       \<noteq> pt_rotation (BackboneParticle_update (BackboneParticle_new 0 1 (\<lambda>k. 0) 0\<lparr> p_entropy := 8106479329266893 / 2 ^ 53, p_phaseNoise := 1 / 2 \<rparr>) 1) + Math_PI"
  by (simp add: rotation_eq BackboneParticle_new_def animationSpeed_def Math_PI_def fl_zero
        rotation_value_1 rotation_value_2 rotation_value_3 rotation_value_4 rotation_value_5 rotation_value_6 rotation_value_8 rotation_value_9 rotation_value_10 rotation_value_11)

text \<open>
  C5, amended: two backbone particles of the same helix index, one of strand 1 and one of
  strand 2, with equal entropy and with phase noise zero: at every time the angle computed
  by the update of the strand-2 particle is the sum, rounded as every sum of doubles is,
  of the angle of the strand-1 particle and \<open>Math.PI\<close>.
\<close>

theorem strand_phase_offset:
  assumes "p_bpIndex p2 = p_bpIndex p1"
    and "p_strand p1 = 1" and "p_strand p2 = 2"
    and "p_entropy p2 = p_entropy p1"
    and "p_phaseNoise p1 = 0" and "p_phaseNoise p2 = 0"
  shows "pt_rotation (BackboneParticle_update p2 t)
           = fl (pt_rotation (BackboneParticle_update p1 t) + Math_PI)"
  using assms by (simp add: rotation_eq fl_zero fl_idem)

theorem strand_phase_offset_witness:
  "p_phaseNoise (BackboneParticle_new 3 1 (\<lambda>k. 0) 0) = 0
   \<and> p_phaseNoise (BackboneParticle_new 3 2 (\<lambda>k. 0) 1) = 0
   \<and> p_entropy (BackboneParticle_new 3 2 (\<lambda>k. 0) 1)
       = p_entropy (BackboneParticle_new 3 1 (\<lambda>k. 0) 0)
   \<and> pt_rotation (BackboneParticle_update (BackboneParticle_new 3 2 (\<lambda>k. 0) 1) 7)
       = fl (pt_rotation (BackboneParticle_update (BackboneParticle_new 3 1 (\<lambda>k. 0) 0) 7)
               + Math_PI)"
proof -
  have a: "p_bpIndex (BackboneParticle_new 3 2 (\<lambda>k. 0) 1)
             = p_bpIndex (BackboneParticle_new 3 1 (\<lambda>k. 0) 0)"
    and b: "p_strand (BackboneParticle_new 3 1 (\<lambda>k. 0) 0) = 1"
    and c: "p_strand (BackboneParticle_new 3 2 (\<lambda>k. 0) 1) = 2"
    and d: "p_entropy (BackboneParticle_new 3 2 (\<lambda>k. 0) 1)
             = p_entropy (BackboneParticle_new 3 1 (\<lambda>k. 0) 0)"
    and e: "p_phaseNoise (BackboneParticle_new 3 1 (\<lambda>k. 0) 0) = 0"
    and f: "p_phaseNoise (BackboneParticle_new 3 2 (\<lambda>k. 0) 1) = 0"
    by (simp_all add: BackboneParticle_new_def random2_def random_js_two fl_zero)
  from strand_phase_offset [OF a b c d e f, of 7] d e f show ?thesis by simp
qed

subsection \<open>Bond dynamics\<close>

lemma BasePair_update_bond:
  "fst (BasePair_update u this time)
     = bond_step (random_js u None None) (random_js u (Some 30) (Some 80)) this"
  by (simp add: BasePair_update_def Let_def)

text \<open>A connected pair stays connected: the breaking draw is not a number.\<close>

lemma bond_step_connected:
  "b_isConnected this \<Longrightarrow>
     bond_step NaN r this = this\<lparr> b_reconnectionTimer := b_reconnectionTimer this + 1 \<rparr>"
  by (simp add: bond_step_def Let_def)

lemma update_connected:
  assumes "b_isConnected this"
  shows "fst (BasePair_update u this time)
           = this\<lparr> b_reconnectionTimer := b_reconnectionTimer this + 1 \<rparr>"
  using assms by (simp add: BasePair_update_bond random_js_noarg bond_step_connected)

lemma BasePair_new_type: "b_type (BasePair_new i g) = AT"
  by (simp add: BasePair_new_def Let_def random_js_noarg)

lemma update_disconnected:
  assumes "\<not> b_isConnected this"
  shows "fst (BasePair_update u this time) =
           (if real (b_reconnectionTimer this + 1) > fl (fl (u * 50) + 30)
            then this\<lparr> b_reconnectionTimer := 0, b_isConnected := True \<rparr>
            else this\<lparr> b_reconnectionTimer := b_reconnectionTimer this + 1 \<rparr>)"
  using assms
  by (simp add: BasePair_update_bond bond_step_def Let_def random_js_dwell random_js_noarg)

lemma updates_stay_broken:
  assumes "\<forall>u \<in> set us. thr \<le> fl (fl (u * 50) + 30)"
    and "\<not> b_isConnected this"
    and "real (b_reconnectionTimer this + length us) \<le> thr"
  shows "\<not> b_isConnected (BasePair_updates us t this)
         \<and> b_reconnectionTimer (BasePair_updates us t this)
             = b_reconnectionTimer this + length us"
  using assms
proof (induction us arbitrary: this t)
  case Nil
  then show ?case by simp
next
  case (Cons u us)
  let ?this1 = "fst (BasePair_update u this (t + 1))"
  from Cons.prems have u: "thr \<le> fl (fl (u * 50) + 30)"
    and k: "real (b_reconnectionTimer this + 1) \<le> thr"
    by simp_all
  then have "\<not> real (b_reconnectionTimer this + 1) > fl (fl (u * 50) + 30)"
    by linarith
  with update_disconnected [OF Cons.prems(2), of u "t + 1"]
  have s: "?this1 = this\<lparr> b_reconnectionTimer := b_reconnectionTimer this + 1 \<rparr>"
    by auto
  have "\<not> b_isConnected (BasePair_updates us (t + 1) ?this1)
        \<and> b_reconnectionTimer (BasePair_updates us (t + 1) ?this1)
            = b_reconnectionTimer ?this1 + length us"
    using Cons.prems by (intro Cons.IH) (simp_all add: s)
  then show ?case by (simp add: s)
qed

lemma update_stays_broken:
  assumes "0 \<le> u" and "u < 1" and "\<not> b_isConnected this"
    and "\<not> b_isConnected (fst (BasePair_update u this time))"
  shows "b_reconnectionTimer (fst (BasePair_update u this time)) = b_reconnectionTimer this + 1
         \<and> b_reconnectionTimer (fst (BasePair_update u this time)) \<le> 80"
proof -
  let ?k = "b_reconnectionTimer this + 1"
  from assms(3,4) update_disconnected [OF assms(3), of u time]
  have le: "\<not> real ?k > fl (fl (u * 50) + 30)"
    and eq: "fst (BasePair_update u this time) = this\<lparr> b_reconnectionTimer := ?k \<rparr>"
    by (auto split: if_splits)
  from le dwell_le_80 [OF assms(1,2)] have "real ?k \<le> real 80" by simp
  then have "?k \<le> 80" by (simp only: of_nat_le_iff)
  with eq show ?thesis by simp
qed

lemma updates_reconnect_or_count:
  assumes "\<forall>u \<in> set us. 0 \<le> u \<and> u < 1" and "\<not> b_isConnected this"
  shows "(\<exists>n. 0 < n \<and> n \<le> length us \<and> b_isConnected (BasePair_updates (take n us) t this))
         \<or> (\<not> b_isConnected (BasePair_updates us t this)
             \<and> b_reconnectionTimer (BasePair_updates us t this)
                 = b_reconnectionTimer this + length us
             \<and> (us = [] \<or> b_reconnectionTimer (BasePair_updates us t this) \<le> 80))"
  using assms
proof (induction us arbitrary: this t)
  case Nil
  then show ?case by simp
next
  case (Cons u us)
  let ?this1 = "fst (BasePair_update u this (t + 1))"
  show ?case
  proof (cases "b_isConnected ?this1")
    case True
    then have "0 < (1::nat) \<and> 1 \<le> length (u # us)
               \<and> b_isConnected (BasePair_updates (take 1 (u # us)) t this)"
      by simp
    then show ?thesis by blast
  next
    case False
    from Cons.prems have u: "0 \<le> u" "u < 1" and rest: "\<forall>v \<in> set us. 0 \<le> v \<and> v < 1"
      by simp_all
    from update_stays_broken [OF u Cons.prems(2) False]
    have t1: "b_reconnectionTimer ?this1 = b_reconnectionTimer this + 1"
      and b1: "b_reconnectionTimer ?this1 \<le> 80" by simp_all
    from Cons.IH [OF rest False, of "t + 1"] show ?thesis
    proof
      assume "\<exists>n. 0 < n \<and> n \<le> length us
                \<and> b_isConnected (BasePair_updates (take n us) (t + 1) ?this1)"
      then obtain n where n: "0 < n" "n \<le> length us"
        "b_isConnected (BasePair_updates (take n us) (t + 1) ?this1)" by blast
      then have "0 < Suc n \<and> Suc n \<le> length (u # us)
                 \<and> b_isConnected (BasePair_updates (take (Suc n) (u # us)) t this)"
        by simp
      then show ?thesis by blast
    next
      assume a: "\<not> b_isConnected (BasePair_updates us (t + 1) ?this1)
         \<and> b_reconnectionTimer (BasePair_updates us (t + 1) ?this1)
             = b_reconnectionTimer ?this1 + length us
         \<and> (us = [] \<or> b_reconnectionTimer (BasePair_updates us (t + 1) ?this1) \<le> 80)"
      then have "b_reconnectionTimer (BasePair_updates us (t + 1) ?this1) \<le> 80"
        using b1 by auto
      with a t1 show ?thesis by simp
    qed
  qed
qed

text \<open>
  C4: a base pair whose bond has just broken (flag false, counter 0) stays broken
  through the next 30 calls of \<open>update\<close>, whatever \<open>Math.random()\<close> returns, and its
  counter equals the number of calls made since; the branch that breaks a bond sets the
  counter to 0; and every call that finds and leaves the bond broken adds 1 to the
  counter.
\<close>

theorem broken_bond_dwells_30_updates:
  assumes "\<forall>u \<in> set us. 0 \<le> u \<and> u < 1" and "length us \<le> 30"
    and "\<not> b_isConnected this" and "b_reconnectionTimer this = 0"
  shows "\<not> b_isConnected (BasePair_updates us t this)
    \<and> b_reconnectionTimer (BasePair_updates us t this) = length us
    \<and> (b_isConnected that \<and> \<not> b_isConnected (bond_step r_break r_dwell that)
         \<longrightarrow> b_reconnectionTimer (bond_step r_break r_dwell that) = 0)
    \<and> (\<not> b_isConnected that \<and> \<not> b_isConnected (fst (BasePair_update v that s))
         \<longrightarrow> b_reconnectionTimer (fst (BasePair_update v that s))
               = b_reconnectionTimer that + 1)"
proof -
  from assms(1) have "\<forall>u \<in> set us. 30 \<le> fl (fl (u * 50) + 30)"
    by (simp add: dwell_ge_30)
  moreover from assms(2,4) have "real (b_reconnectionTimer this + length us) \<le> 30"
    by simp
  ultimately have "\<not> b_isConnected (BasePair_updates us t this)
         \<and> b_reconnectionTimer (BasePair_updates us t this)
             = b_reconnectionTimer this + length us"
    using assms(3) by (intro updates_stay_broken [where thr = 30])
  with assms(4)
  have "\<not> b_isConnected (BasePair_updates us t this)
        \<and> b_reconnectionTimer (BasePair_updates us t this) = length us" by simp
  moreover have "b_isConnected that \<and> \<not> b_isConnected (bond_step r_break r_dwell that)
         \<longrightarrow> b_reconnectionTimer (bond_step r_break r_dwell that) = 0"
    by (simp add: bond_step_def Let_def)
  moreover have "\<not> b_isConnected that \<and> \<not> b_isConnected (fst (BasePair_update v that s))
         \<longrightarrow> b_reconnectionTimer (fst (BasePair_update v that s))
               = b_reconnectionTimer that + 1"
  proof
    assume a: "\<not> b_isConnected that \<and> \<not> b_isConnected (fst (BasePair_update v that s))"
    then have n: "\<not> b_isConnected that" by simp
    from a update_disconnected [OF n, of v s]
    show "b_reconnectionTimer (fst (BasePair_update v that s)) = b_reconnectionTimer that + 1"
      by (auto split: if_splits)
  qed
  ultimately show ?thesis by blast
qed

theorem broken_bond_dwells_30_updates_witness:
  "\<not> b_isConnected
       (BasePair_updates (replicate 30 0) 0 (BasePair_new 5 (\<lambda>k. 0)\<lparr> b_isConnected := False \<rparr>))
   \<and> b_reconnectionTimer
       (BasePair_updates (replicate 30 0) 0 (BasePair_new 5 (\<lambda>k. 0)\<lparr> b_isConnected := False \<rparr>))
       = 30
   \<and> b_isConnected (BasePair_new 5 (\<lambda>k. 0))
   \<and> \<not> b_isConnected (bond_step (Fin 0.99) NaN (BasePair_new 5 (\<lambda>k. 0)))
   \<and> b_reconnectionTimer (bond_step (Fin 0.99) NaN (BasePair_new 5 (\<lambda>k. 0))) = 0
   \<and> \<not> b_isConnected (fst (BasePair_update 0 (bond_step (Fin 0.99) NaN (BasePair_new 5 (\<lambda>k. 0))) 1))
   \<and> b_reconnectionTimer
       (fst (BasePair_update 0 (bond_step (Fin 0.99) NaN (BasePair_new 5 (\<lambda>k. 0))) 1)) = 1"
proof -
  let ?new = "BasePair_new 5 (\<lambda>k. 0)"
  let ?bp0 = "?new\<lparr> b_isConnected := False \<rparr>"
  let ?that = "bond_step (Fin 0.99) NaN ?new"
  have h1: "\<forall>u \<in> set (replicate 30 (0::real)). 0 \<le> u \<and> u < 1" by simp
  have h2: "length (replicate 30 (0::real)) \<le> 30" by simp
  have h3: "\<not> b_isConnected ?bp0" by simp
  have h4: "b_reconnectionTimer ?bp0 = 0" by (simp add: BasePair_new_def Let_def)
  have c: "b_isConnected ?new" by (simp add: BasePair_new_def Let_def)
  have ty: "b_type ?new = AT" by (simp add: BasePair_new_def Let_def random_js_noarg)
  have d: "\<not> b_isConnected ?that" using c ty by (simp add: bond_step_def Let_def fl_0_95)
  have e: "\<not> b_isConnected (fst (BasePair_update 0 ?that 1))"
    using d by (simp add: update_disconnected bond_step_def Let_def c ty fl_zero fl_30 fl_0_95)
  note t = broken_bond_dwells_30_updates [OF h1 h2 h3 h4, of 0]
  from t [of ?new "Fin 0.99" NaN] c d
  have f: "b_reconnectionTimer ?that = 0" by blast
  from t [of ?that _ _ 0 1] d e
  have g: "b_reconnectionTimer (fst (BasePair_update 0 ?that 1)) = 1" using f by simp
  from t c d e f g show ?thesis by simp
qed

text \<open>
  The largest double below 1, and the dwell threshold that \<open>random(30, 80)\<close> computes
  from it: the product with 50 rounds to the double next below 50, and the sum of that
  and 30 lies half-way between two doubles and rounds to 80.
\<close>

lemma fl_below_one: "fl (9007199254740991 / 9007199254740992) = 9007199254740991 / 9007199254740992"
  by (rule fl_near [where e = "-1" and n = "9007199254740991"]) (simp_all add: powr_neg_numeral)

lemma fl_below_fifty: "fl (225179981368524775 / 4503599627370496) = 7036874417766399 / 140737488355328"
  by (rule fl_near [where e = "5" and n = "7036874417766399"]) (simp_all add: powr_neg_numeral)

lemma fl_tie_eighty: "fl (11258999068426239 / 140737488355328) = 80"
  by (rule fl_tie [where e = "6" and n = "5629499534213119"]) (simp_all add: powr_neg_numeral)

text \<open>
  C10, as stated, fails: when \<open>Math.random()\<close> returns the largest double below 1,
  \<open>random(30, 80)\<close> is 80, not less, and a broken bond is still broken after every one
  of the next 80 updates.
\<close>

theorem dwell_threshold_80_counterexample:
  "0 \<le> ((9007199254740991 / 2 ^ 53) :: real) \<and> ((9007199254740991 / 2 ^ 53) :: real) < 1
   \<and> fl (9007199254740991 / 2 ^ 53) = (9007199254740991 / 2 ^ 53)
   \<and> random_js (9007199254740991 / 2 ^ 53) (Some 30) (Some 80) = Fin 80
   \<and> \<not> (\<exists>n. 0 < n \<and> n \<le> 80
            \<and> b_isConnected
                 (BasePair_updates (take n (replicate 80 (9007199254740991 / 2 ^ 53))) 0
                    (BasePair_new 5 (\<lambda>k. 0)\<lparr> b_isConnected := False \<rparr>)))"
proof -
  have d: "fl (fl ((9007199254740991 / 2 ^ 53) * 50) + 30) = 80"
    by (simp add: fl_below_fifty fl_tie_eighty)
  have "\<not> b_isConnected
            (BasePair_updates (take n (replicate 80 (9007199254740991 / 2 ^ 53))) 0
               (BasePair_new 5 (\<lambda>k. 0)\<lparr> b_isConnected := False \<rparr>))"
    if "n \<le> 80" for n :: nat
  proof -
    from that have tk: "take n (replicate 80 (9007199254740991 / 2 ^ 53)) = replicate n ((9007199254740991 / 2 ^ 53) :: real)"
      by (simp add: min_def)
    have a: "\<forall>u \<in> set (replicate n ((9007199254740991 / 2 ^ 53) :: real)). 80 \<le> fl (fl (u * 50) + 30)"
      using d by simp
    have b: "\<not> b_isConnected (BasePair_new 5 (\<lambda>k. 0)\<lparr> b_isConnected := False \<rparr>)"
      by simp
    have c: "real (b_reconnectionTimer (BasePair_new 5 (\<lambda>k. 0)\<lparr> b_isConnected := False \<rparr>)
                    + length (replicate n ((9007199254740991 / 2 ^ 53) :: real))) \<le> 80"
      using that by (simp add: BasePair_new_def Let_def)
    from updates_stay_broken [OF a b c, of 0] show ?thesis unfolding tk by blast
  qed
  then have "\<not> (\<exists>n. 0 < n \<and> n \<le> 80
            \<and> b_isConnected
                 (BasePair_updates (take n (replicate 80 (9007199254740991 / 2 ^ 53))) 0
                    (BasePair_new 5 (\<lambda>k. 0)\<lparr> b_isConnected := False \<rparr>)))"
    by blast
  moreover have "random_js (9007199254740991 / 2 ^ 53) (Some 30) (Some 80) = Fin 80"
    by (simp only: random_js_dwell d)
  moreover have "fl (9007199254740991 / 2 ^ 53) = (9007199254740991 / 2 ^ 53)" by (simp add: fl_below_one)
  ultimately show ?thesis by simp
qed

text \<open>
  C10, amended: a base pair whose bond is broken is connected again after at most 81
  further calls of \<open>update\<close>: every value of \<open>random(30, 80)\<close> is a number from 30 to
  80, both included, and the counter grows by one with every call that leaves the bond
  broken.
\<close>

theorem broken_bond_reconnects_within_81:
  assumes "\<forall>u \<in> set us. 0 \<le> u \<and> u < 1" and "length us = 81"
    and "\<not> b_isConnected this"
  shows "(\<exists>n. 0 < n \<and> n \<le> 81 \<and> b_isConnected (BasePair_updates (take n us) t this))
    \<and> (\<forall>u \<in> set us. \<exists>r. random_js u (Some 30) (Some 80) = Fin r \<and> 30 \<le> r \<and> r \<le> 80)"
proof -
  from assms(2) have ne: "us \<noteq> []" by auto
  from updates_reconnect_or_count [OF assms(1,3), of t] assms(2) ne
  have "\<exists>n. 0 < n \<and> n \<le> 81 \<and> b_isConnected (BasePair_updates (take n us) t this)"
    by auto
  moreover have "\<forall>u \<in> set us. \<exists>r. random_js u (Some 30) (Some 80) = Fin r \<and> 30 \<le> r \<and> r \<le> 80"
    using assms(1) by (simp add: random_js_dwell dwell_ge_30 dwell_le_80)
  ultimately show ?thesis by blast
qed

theorem broken_bond_reconnects_within_81_witness:
  "(\<exists>n. 0 < n \<and> n \<le> 81
       \<and> b_isConnected (BasePair_updates (take n (replicate 81 (1 / 2))) 0
            (BasePair_new 5 (\<lambda>k. 0)\<lparr> b_isConnected := False \<rparr>)))
   \<and> (\<exists>r. random_js (1 / 2) (Some 30) (Some 80) = Fin r \<and> 30 \<le> r \<and> r \<le> 80)"
proof -
  let ?bp0 = "BasePair_new 5 (\<lambda>k. 0)\<lparr> b_isConnected := False \<rparr>"
  have h1: "\<forall>u \<in> set (replicate 81 (1 / 2 :: real)). 0 \<le> u \<and> u < 1" by simp
  have h2: "length (replicate 81 (1 / 2 :: real)) = 81" by simp
  have h3: "\<not> b_isConnected ?bp0" by simp
  from broken_bond_reconnects_within_81 [OF h1 h2 h3, of 0] show ?thesis by simp
qed

subsection \<open>The frame scheduler\<close>

lemma frame_sched_fields:
  "s_time (snd (frame fd (h, s))) = s_time s + 1"
  "s_lastFrameTime (snd (frame fd (h, s))) = s_lastFrameTime s"
  "h_pending (fst (frame fd (h, s))) = h_pending h"
  "h_next (fst (frame fd (h, s))) = h_next h"
  "h_ref (fst (frame fd (h, s))) = h_ref h"
  "h_contexts (fst (frame fd (h, s))) = h_contexts h"
  by (simp_all add: frame_def Let_def split_beta)

lemma frame_entities:
  "s_backboneParticles1 (snd (frame fd (h, s))) = s_backboneParticles1 s"
  "s_backboneParticles2 (snd (frame fd (h, s))) = s_backboneParticles2 s"
  "length (s_basePairs (snd (frame fd (h, s)))) = length (s_basePairs s)"
  by (simp_all add: frame_def Let_def split_beta)

lemma frameInterval_pos: "0 < frameInterval"
  by (simp add: frameInterval_value)

lemma js_rem_one_interval:
  assumes "b > 0" and "b \<le> a" and "a < 2 * b"
  shows "js_rem a b = a - b"
proof -
  from assms have "1 \<le> a / b" and "a / b < 2"
    by (simp_all add: field_simps)
  then have "\<lfloor>a / b\<rfloor> = 1" by linarith
  moreover from \<open>1 \<le> a / b\<close> have "\<not> a / b < 0" by simp
  ultimately show ?thesis by (simp add: js_rem_def)
qed

lemma js_rem_range:
  assumes "b > 0" and "0 \<le> a"
  shows "0 \<le> js_rem a b \<and> js_rem a b < b"
proof -
  from assms have nn: "\<not> a / b < 0" by (simp add: field_simps)
  have ab: "b * (a / b) = a" using assms(1) by simp
  have "of_int \<lfloor>a / b\<rfloor> \<le> a / b" and "a / b < of_int \<lfloor>a / b\<rfloor> + 1"
    by linarith+
  with assms(1) have "b * of_int \<lfloor>a / b\<rfloor> \<le> b * (a / b)"
    and "b * (a / b) < b * (of_int \<lfloor>a / b\<rfloor> + 1)"
    by (simp_all only: mult_le_cancel_left_pos mult_less_cancel_left_pos)
  with ab have "b * of_int \<lfloor>a / b\<rfloor> \<le> a" and "a < b * of_int \<lfloor>a / b\<rfloor> + b"
    by (simp_all add: distrib_left)
  with nn show ?thesis by (simp add: js_rem_def)
qed

lemma animate_host:
  "h_pending (fst (animate fd ct (h, s))) = h_pending h @ [h_next h + 1]"
  "h_next (fst (animate fd ct (h, s))) = h_next h + 1"
  "h_ref (fst (animate fd ct (h, s))) = Some (h_next h + 1)"
  "h_contexts (fst (animate fd ct (h, s))) = h_contexts h"
  by (simp_all add: animate_def Let_def split_beta requestAnimationFrame_def frame_sched_fields)

lemma host_frame_one:
  assumes "one_callback_pending h"
  shows "host_frame fd ct (h, s) = animate fd ct (h\<lparr> h_pending := [] \<rparr>, s)"
  using assms by (simp add: host_frame_def one_callback_pending_def)

lemma host_frame_pending:
  assumes "one_callback_pending h"
  shows "one_callback_pending (fst (host_frame fd ct (h, s)))"
  using assms
  by (simp add: host_frame_one one_callback_pending_def animate_host)

lemma host_frames_Cons:
  "host_frames ((fd, c) # cbs) st = host_frames cbs (host_frame fd c st)"
  by (simp add: host_frames_def)

lemma host_frames_append:
  "host_frames (xs @ ys) st = host_frames ys (host_frames xs st)"
  by (simp add: host_frames_def)

lemma last_Cons_append: "last (t # (xs @ ys)) = last (last (t # xs) # ys)"
  by (induction xs arbitrary: t) auto

lemma init_fold_sched:
  "s_time (fold (init_step g) ks s) = s_time s
   \<and> s_lastFrameTime (fold (init_step g) ks s) = s_lastFrameTime s"
  by (induction ks arbitrary: s) (simp_all add: init_step_def)

lemma init_sched: "s_time (init g) = 0" "s_lastFrameTime (init g) = 0"
  by (simp_all add: init_def init_fold_sched)

lemma mount_pending:
  assumes "h_pending h0 = []"
  shows "one_callback_pending (fst (mount True g h0))"
  using assms by (simp add: mount_def requestAnimationFrame_def one_callback_pending_def)

text \<open>
  On the marker and the counter, \<open>animate\<close> is \<open>sched_step\<close>, and so is every
  animation frame of the host while one callback is scheduled.
\<close>

lemma animate_sched:
  "(s_lastFrameTime (snd (animate fd ct (h, s))), s_time (snd (animate fd ct (h, s))))
     = sched_step ct (s_lastFrameTime s, s_time s)"
  by (simp add: animate_def sched_step_def Let_def split_beta frame_sched_fields)

lemma host_frame_sched:
  assumes "one_callback_pending h"
  shows "(s_lastFrameTime (snd (host_frame fd ct (h, s))), s_time (snd (host_frame fd ct (h, s))))
     = sched_step ct (s_lastFrameTime s, s_time s)"
  using assms by (simp only: host_frame_one animate_sched)

lemma host_frames_sched:
  assumes "one_callback_pending (fst st)"
  shows "one_callback_pending (fst (host_frames cbs st))
     \<and> (s_lastFrameTime (snd (host_frames cbs st)), s_time (snd (host_frames cbs st)))
         = fold sched_step (map snd cbs) (s_lastFrameTime (snd st), s_time (snd st))"
  using assms
proof (induction cbs arbitrary: st)
  case Nil
  then show ?case by (simp add: host_frames_def)
next
  case (Cons cb cbs)
  obtain fd c where cb: "cb = (fd, c)" by (cases cb)
  obtain h s where st: "st = (h, s)" by (cases st)
  from Cons.prems st have p: "one_callback_pending h" by simp
  have p1: "one_callback_pending (fst (host_frame fd c (h, s)))"
    by (rule host_frame_pending [OF p])
  from Cons.IH [OF p1] host_frame_sched [OF p, of fd c s]
  show ?case by (simp add: cb st host_frames_Cons)
qed

lemma spaced_append:
  "spaced_by gap t (xs @ ys) = (spaced_by gap t xs \<and> spaced_by gap (last (t # xs)) ys)"
  by (induction xs arbitrary: t) auto

lemma sched_step_skip:
  assumes "L \<noteq> 0" and "fl (c - L) < frameInterval"
  shows "sched_step c (L, n) = (L, n)"
  using assms by (simp add: sched_step_def Let_def)

lemma sched_step_accept:
  assumes "L \<noteq> 0" and "frameInterval \<le> fl (c - L)"
  shows "sched_step c (L, n) = (fl (c - js_rem (fl (c - L)) frameInterval), n + 1)"
  using assms by (simp add: sched_step_def Let_def)

text \<open>
  One callback at the timestamp \<open>c\<close>, a double of at most \<open>T\<close>, so that each of the
  two subtractions is off by at most \<open>e = T / 2\<^sup>5\<^sup>3\<close>. The marker trails the
  timestamp \<open>t\<close> of the callback before by less than one interval and \<open>e\<close>, and \<open>c\<close>
  follows \<open>t\<close> by less than one interval minus \<open>2 e\<close>. Then the elapsed time is less
  than two intervals, and an accepted frame moves the marker by one interval, up to
  \<open>2 e\<close>.
\<close>

lemma sched_step_bounds:
  assumes L: "0 < L" "L \<le> t" "t - L < frameInterval + e"
    and c: "t \<le> c" "c - t < frameInterval - 2 * e" "fl c = c" "c \<le> T"
    and e: "e = T / 2 ^ 53"
  shows "0 < fst (sched_step c (L, n)) \<and> fst (sched_step c (L, n)) \<le> c
     \<and> c - fst (sched_step c (L, n)) < frameInterval + e
     \<and> (sched_step c (L, n) = (L, n)
        \<or> snd (sched_step c (L, n)) = n + 1
           \<and> \<bar>fst (sched_step c (L, n)) - L - frameInterval\<bar> \<le> 2 * e)"
proof -
  let ?I = frameInterval
  let ?d = "fl (c - L)"
  from L c have cL: "0 \<le> c - L" "c - L \<le> T" by simp_all
  from fl_error [OF cL] e have e1: "\<bar>?d - (c - L)\<bar> \<le> e" by simp
  from L have nz: "L \<noteq> 0" by simp
  show ?thesis
  proof (cases "?d < ?I")
    case True
    have s: "sched_step c (L, n) = (L, n)" by (rule sched_step_skip [OF nz True])
    from e1 True have "c - L < ?I + e" by linarith
    with L c show ?thesis by (simp add: s)
  next
    case False
    then have acc: "?I \<le> ?d" by simp
    let ?r = "js_rem ?d ?I"
    have s: "sched_step c (L, n) = (fl (c - ?r), n + 1)"
      by (rule sched_step_accept [OF nz acc])
    from L c have "c - L < 2 * ?I - e" by linarith
    with e1 have d2: "?d < 2 * ?I" by linarith
    from js_rem_one_interval [OF frameInterval_pos acc d2] have r: "?r = ?d - ?I" .
    have pos: "0 < c - L"
    proof (rule ccontr)
      assume "\<not> 0 < c - L"
      with cL have "c - L = 0" by simp
      then have "?d = 0" by (simp add: fl_zero)
      with acc frameInterval_pos show False by simp
    qed
    from L have "c - L \<le> c" by simp
    from fl_le_dbl [OF pos this c(3)] have dc: "?d \<le> c" .
    from r acc dc frameInterval_pos have x: "0 < c - ?r" "c - ?r \<le> c" by simp_all
    from x c have "0 \<le> c - ?r" "c - ?r \<le> T" by simp_all
    from fl_error [OF this] e have e2: "\<bar>fl (c - ?r) - (c - ?r)\<bar> \<le> e" by simp
    from fl_pos [OF x(1)] have a1: "0 < fl (c - ?r)" .
    from fl_le_dbl [OF x c(3)] have a2: "fl (c - ?r) \<le> c" .
    from e2 r d2 have a3: "c - fl (c - ?r) < ?I + e" by linarith
    from e1 e2 r have a4: "\<bar>fl (c - ?r) - L - ?I\<bar> \<le> 2 * e" by linarith
    from a1 a2 a3 a4 show ?thesis by (simp add: s)
  qed
qed

text \<open>The same along a run: \<open>k\<close> accepted frames move the marker by \<open>k\<close> intervals, up to \<open>2 k e\<close>.\<close>

lemma sched_run_bounds:
  assumes "0 < L" and "L \<le> t" and "t - L < frameInterval + e"
    and "spaced_by (frameInterval - 2 * e) t cs"
    and "\<forall>c \<in> set cs. fl c = c \<and> c \<le> T"
    and "e = T / 2 ^ 53"
  shows "\<exists>L' k. fold sched_step cs (L, n) = (L', n + k)
     \<and> 0 < L' \<and> L' \<le> last (t # cs) \<and> last (t # cs) - L' < frameInterval + e
     \<and> \<bar>L' - L - real k * frameInterval\<bar> \<le> 2 * real k * e"
  using assms
proof (induction cs arbitrary: L n t)
  case Nil
  then show ?case by simp
next
  case (Cons c cs)
  obtain L1 n1 where s1: "sched_step c (L, n) = (L1, n1)" by (cases "sched_step c (L, n)")
  from Cons.prems(4) have c12: "t \<le> c" "c - t < frameInterval - 2 * e"
    and rest1: "spaced_by (frameInterval - 2 * e) c cs"
    by simp_all
  from Cons.prems(5) have c34: "fl c = c" "c \<le> T"
    and rest2: "\<forall>c \<in> set cs. fl c = c \<and> c \<le> T"
    by simp_all
  note c = c12 c34 and rest = rest1 rest2
  from sched_step_bounds [OF Cons.prems(1-3) c Cons.prems(6), of n] s1
  have b: "0 < L1" "L1 \<le> c" "c - L1 < frameInterval + e"
    and alt: "(L1 = L \<and> n1 = n) \<or> (n1 = n + 1 \<and> \<bar>L1 - L - frameInterval\<bar> \<le> 2 * e)"
    by simp_all
  from Cons.IH [OF b rest Cons.prems(6), of n1]
  obtain L' k where run: "fold sched_step cs (L1, n1) = (L', n1 + k)"
    and inv: "0 < L'" "L' \<le> last (c # cs)" "last (c # cs) - L' < frameInterval + e"
    and drift: "\<bar>L' - L1 - real k * frameInterval\<bar> \<le> 2 * real k * e"
    by blast
  have la: "last (t # c # cs) = last (c # cs)" by simp
  from alt show ?case
  proof
    assume "L1 = L \<and> n1 = n"
    with run inv drift s1 la show ?thesis by (intro exI [of _ L'] exI [of _ k]) simp
  next
    assume a: "n1 = n + 1 \<and> \<bar>L1 - L - frameInterval\<bar> \<le> 2 * e"
    with drift have "\<bar>L' - L - real (k + 1) * frameInterval\<bar> \<le> 2 * real (k + 1) * e"
      by (simp add: algebra_simps) linarith
    with run inv s1 la a show ?thesis by (intro exI [of _ L'] exI [of _ "k + 1"]) simp
  qed
qed

lemma span_bounds:
  fixes I e k :: real
  assumes "L1 \<le> t1" and "t1 - L1 < I + e" and "L2 \<le> t2" and "t2 - L2 < I + e"
    and "\<bar>L2 - L1 - k * I\<bar> \<le> 2 * k * e"
  shows "(k - 1) * I - (2 * k + 1) * e < t2 - t1"
    and "t2 - t1 < (k + 1) * I + (2 * k + 1) * e"
  using assms by (simp_all add: algebra_simps)

text \<open>
  A run of seven callbacks near 70 seconds, written out as the doubles they are:
  70000, 70033.33333333333, 70066.33333333333, 70096.33333333333, 70106.33333333333,
  70139.33333333333 and 70166.66666666666. Each differs from the one before it by less
  than one frame interval.
\<close>

lemma sched_value_1: "fl (70000) = 70000"
  by (rule fl_near [where e = "16" and n = "4810363371520000"]) (simp_all add: powr_neg_numeral)

lemma sched_value_2: "fl (4812654020744533 / 68719476736) = 4812654020744533 / 68719476736"
  by (rule fl_near [where e = "16" and n = "4812654020744533"]) (simp_all add: powr_neg_numeral)

lemma sched_value_3: "fl (2290649224533 / 68719476736) = 2290649224533 / 68719476736"
  by (rule fl_near [where e = "5" and n = "4691249611843584"]) (simp_all add: powr_neg_numeral)

lemma sched_value_4: "fl (4814921763476821 / 68719476736) = 4814921763476821 / 68719476736"
  by (rule fl_near [where e = "16" and n = "4814921763476821"]) (simp_all add: powr_neg_numeral)

lemma sched_value_5: "fl (4558391956821 / 68719476736) = 4558391956821 / 68719476736"
  by (rule fl_near [where e = "6" and n = "4667793363784704"]) (simp_all add: powr_neg_numeral)

lemma sched_value_6: "fl (9856315434484804267 / 140737488355328) = 4812654020744533 / 68719476736"
  by (rule fl_near [where e = "16" and n = "4812654020744533"]) (simp_all add: powr_neg_numeral)

lemma sched_value_7: "fl (4816983347778901 / 68719476736) = 4816983347778901 / 68719476736"
  by (rule fl_near [where e = "16" and n = "4816983347778901"]) (simp_all add: powr_neg_numeral)

lemma sched_value_8: "fl (63) = 63"
  by (rule fl_near [where e = "5" and n = "8866461766385664"]) (simp_all add: powr_neg_numeral)

lemma sched_value_9: "fl (9861006684096647851 / 140737488355328) = 2407472334984533 / 34359738368"
  by (rule fl_near [where e = "16" and n = "4814944669969066"]) (simp_all add: powr_neg_numeral)

lemma sched_value_10: "fl (4817670542546261 / 68719476736) = 4817670542546261 / 68719476736"
  by (rule fl_near [where e = "16" and n = "4817670542546261"]) (simp_all add: powr_neg_numeral)

lemma sched_value_11: "fl (2725872577195 / 68719476736) = 2725872577195 / 68719476736"
  by (rule fl_near [where e = "5" and n = "5582587038095360"]) (simp_all add: powr_neg_numeral)

lemma sched_value_12: "fl (9865697933708491435 / 140737488355328) = 4817235319193599 / 68719476736"
  by (rule fl_near [where e = "16" and n = "4817235319193599"]) (simp_all add: powr_neg_numeral)

lemma sched_value_13: "fl (4819938285278549 / 68719476736) = 4819938285278549 / 68719476736"
  by (rule fl_near [where e = "16" and n = "4819938285278549"]) (simp_all add: powr_neg_numeral)

lemma sched_value_14: "fl (1351483042475 / 34359738368) = 1351483042475 / 34359738368"
  by (rule fl_near [where e = "5" and n = "5535674541977600"]) (simp_all add: powr_neg_numeral)

lemma sched_value_15: "fl (9870389183320335019 / 140737488355328) = 1204881492104533 / 17179869184"
  by (rule fl_near [where e = "16" and n = "4819525968418132"]) (simp_all add: powr_neg_numeral)

lemma sched_value_16: "fl (2410908308821333 / 34359738368) = 2410908308821333 / 34359738368"
  by (rule fl_near [where e = "16" and n = "4821816617642666"]) (simp_all add: powr_neg_numeral)

lemma sched_value_17: "fl (1145324612267 / 34359738368) = 1145324612267 / 34359738368"
  by (rule fl_near [where e = "5" and n = "4691249611845632"]) (simp_all add: powr_neg_numeral)

lemma sched_value_18: "fl (9875080432932178603 / 140737488355328) = 4821816617642665 / 68719476736"
  by (rule fl_near [where e = "16" and n = "4821816617642665"]) (simp_all add: powr_neg_numeral)

lemma sched_trace_0: "sched_step (70000) (0, n) = (70000, n)"
  by (simp add: sched_step_def Let_def frameInterval_value js_rem_def sched_value_1 sched_value_2 sched_value_3 sched_value_4 sched_value_5 sched_value_6 sched_value_7 sched_value_8 sched_value_9 sched_value_10 sched_value_11 sched_value_12 sched_value_13 sched_value_14 sched_value_15 sched_value_16 sched_value_17 sched_value_18)

lemma sched_trace_1: "sched_step (4812654020744533 / 68719476736) (70000, n) = (70000, n)"
  by (simp add: sched_step_def Let_def frameInterval_value js_rem_def sched_value_1 sched_value_2 sched_value_3 sched_value_4 sched_value_5 sched_value_6 sched_value_7 sched_value_8 sched_value_9 sched_value_10 sched_value_11 sched_value_12 sched_value_13 sched_value_14 sched_value_15 sched_value_16 sched_value_17 sched_value_18)

lemma sched_trace_2: "sched_step (4814921763476821 / 68719476736) (70000, n) = (4812654020744533 / 68719476736, n + 1)"
  by (simp add: sched_step_def Let_def frameInterval_value js_rem_def sched_value_1 sched_value_2 sched_value_3 sched_value_4 sched_value_5 sched_value_6 sched_value_7 sched_value_8 sched_value_9 sched_value_10 sched_value_11 sched_value_12 sched_value_13 sched_value_14 sched_value_15 sched_value_16 sched_value_17 sched_value_18)

lemma sched_trace_3: "sched_step (4816983347778901 / 68719476736) (4812654020744533 / 68719476736, n) = (2407472334984533 / 34359738368, n + 1)"
  by (simp add: sched_step_def Let_def frameInterval_value js_rem_def sched_value_1 sched_value_2 sched_value_3 sched_value_4 sched_value_5 sched_value_6 sched_value_7 sched_value_8 sched_value_9 sched_value_10 sched_value_11 sched_value_12 sched_value_13 sched_value_14 sched_value_15 sched_value_16 sched_value_17 sched_value_18)

lemma sched_trace_4: "sched_step (4817670542546261 / 68719476736) (2407472334984533 / 34359738368, n) = (4817235319193599 / 68719476736, n + 1)"
  by (simp add: sched_step_def Let_def frameInterval_value js_rem_def sched_value_1 sched_value_2 sched_value_3 sched_value_4 sched_value_5 sched_value_6 sched_value_7 sched_value_8 sched_value_9 sched_value_10 sched_value_11 sched_value_12 sched_value_13 sched_value_14 sched_value_15 sched_value_16 sched_value_17 sched_value_18)

lemma sched_trace_5: "sched_step (4819938285278549 / 68719476736) (4817235319193599 / 68719476736, n) = (1204881492104533 / 17179869184, n + 1)"
  by (simp add: sched_step_def Let_def frameInterval_value js_rem_def sched_value_1 sched_value_2 sched_value_3 sched_value_4 sched_value_5 sched_value_6 sched_value_7 sched_value_8 sched_value_9 sched_value_10 sched_value_11 sched_value_12 sched_value_13 sched_value_14 sched_value_15 sched_value_16 sched_value_17 sched_value_18)

lemma sched_trace_6: "sched_step (2410908308821333 / 34359738368) (1204881492104533 / 17179869184, n) = (4821816617642665 / 68719476736, n + 1)"
  by (simp add: sched_step_def Let_def frameInterval_value js_rem_def sched_value_1 sched_value_2 sched_value_3 sched_value_4 sched_value_5 sched_value_6 sched_value_7 sched_value_8 sched_value_9 sched_value_10 sched_value_11 sched_value_12 sched_value_13 sched_value_14 sched_value_15 sched_value_16 sched_value_17 sched_value_18)

text \<open>
  C3, as stated, fails in double precision: over the span from the second callback of
  this run to the last, of duration 133.33333333332848 ms, the scheduler executes five
  frames, while \<open>\<lfloor>D / frameInterval\<rfloor>\<close> is three (for the interval of the code, the
  double 33.333333333333336, and for the exact quotient 1000/30 alike). Every new
  marker \<open>currentTime - remainder\<close> is rounded downwards here, so that the marker
  advances by a little less than one interval with every frame.
\<close>

theorem scheduler_rounding_counterexample:
  "mount True (\<lambda>k. 0) \<lparr> h_pending = [], h_next = 0, h_ref = None, h_contexts = 0, h_canvas = [] \<rparr>
     = (\<lparr> h_pending = [1], h_next = 1, h_ref = Some 1, h_contexts = 1, h_canvas = [] \<rparr>, Some (init (\<lambda>k. 0)))
   \<and> spaced_by frameInterval (70000) [4812654020744533 / 68719476736, 4814921763476821 / 68719476736, 4816983347778901 / 68719476736, 4817670542546261 / 68719476736, 4819938285278549 / 68719476736, 2410908308821333 / 34359738368]
   \<and> spaced_by (1000 / 30) (70000) [4812654020744533 / 68719476736, 4814921763476821 / 68719476736, 4816983347778901 / 68719476736, 4817670542546261 / 68719476736, 4819938285278549 / 68719476736, 2410908308821333 / 34359738368]
   \<and> (fl (70000) = 70000 \<and> fl (4812654020744533 / 68719476736) = 4812654020744533 / 68719476736 \<and> fl (4814921763476821 / 68719476736) = 4814921763476821 / 68719476736 \<and> fl (4816983347778901 / 68719476736) = 4816983347778901 / 68719476736 \<and> fl (4817670542546261 / 68719476736) = 4817670542546261 / 68719476736 \<and> fl (4819938285278549 / 68719476736) = 4819938285278549 / 68719476736 \<and> fl (2410908308821333 / 34359738368) = 2410908308821333 / 34359738368)
   \<and> s_time (snd (host_frames
          [(\<lparr> d_basePair = (\<lambda>k. 0), d_link = (\<lambda>i j. 0) \<rparr>, 70000),
           (\<lparr> d_basePair = (\<lambda>k. 0), d_link = (\<lambda>i j. 0) \<rparr>, 4812654020744533 / 68719476736)]
          (\<lparr> h_pending = [1], h_next = 1, h_ref = Some 1, h_contexts = 1, h_canvas = [] \<rparr>, init (\<lambda>k. 0)))) = 0
   \<and> s_time (snd (host_frames
          [(\<lparr> d_basePair = (\<lambda>k. 0), d_link = (\<lambda>i j. 0) \<rparr>, 70000),
           (\<lparr> d_basePair = (\<lambda>k. 0), d_link = (\<lambda>i j. 0) \<rparr>, 4812654020744533 / 68719476736),
           (\<lparr> d_basePair = (\<lambda>k. 0), d_link = (\<lambda>i j. 0) \<rparr>, 4814921763476821 / 68719476736),
           (\<lparr> d_basePair = (\<lambda>k. 0), d_link = (\<lambda>i j. 0) \<rparr>, 4816983347778901 / 68719476736),
           (\<lparr> d_basePair = (\<lambda>k. 0), d_link = (\<lambda>i j. 0) \<rparr>, 4817670542546261 / 68719476736),
           (\<lparr> d_basePair = (\<lambda>k. 0), d_link = (\<lambda>i j. 0) \<rparr>, 4819938285278549 / 68719476736),
           (\<lparr> d_basePair = (\<lambda>k. 0), d_link = (\<lambda>i j. 0) \<rparr>, 2410908308821333 / 34359738368)]
          (\<lparr> h_pending = [1], h_next = 1, h_ref = Some 1, h_contexts = 1, h_canvas = [] \<rparr>, init (\<lambda>k. 0)))) = 5
   \<and> \<lfloor>(2410908308821333 / 34359738368 - 4812654020744533 / 68719476736) / frameInterval\<rfloor> = 3
   \<and> \<lfloor>(2410908308821333 / 34359738368 - 4812654020744533 / 68719476736) / (1000 / 30 :: real)\<rfloor> = 3"
proof -
  have m: "mount True (\<lambda>k. 0) \<lparr> h_pending = [], h_next = 0, h_ref = None, h_contexts = 0, h_canvas = [] \<rparr> = (\<lparr> h_pending = [1], h_next = 1, h_ref = Some 1, h_contexts = 1, h_canvas = [] \<rparr>, Some (init (\<lambda>k. 0)))"
    by (simp add: mount_def requestAnimationFrame_def Let_def)
  have p: "one_callback_pending (fst (\<lparr> h_pending = [1], h_next = 1, h_ref = Some 1, h_contexts = 1, h_canvas = [] \<rparr>, init (\<lambda>k. 0)))"
    by (simp add: one_callback_pending_def)
  have sp: "spaced_by frameInterval (70000) [4812654020744533 / 68719476736, 4814921763476821 / 68719476736, 4816983347778901 / 68719476736, 4817670542546261 / 68719476736, 4819938285278549 / 68719476736, 2410908308821333 / 34359738368]"
    by (simp add: frameInterval_value)
  have sq: "spaced_by (1000 / 30) (70000) [4812654020744533 / 68719476736, 4814921763476821 / 68719476736, 4816983347778901 / 68719476736, 4817670542546261 / 68719476736, 4819938285278549 / 68719476736, 2410908308821333 / 34359738368]"
    by simp
  have d: "fl (70000) = 70000 \<and> fl (4812654020744533 / 68719476736) = 4812654020744533 / 68719476736 \<and> fl (4814921763476821 / 68719476736) = 4814921763476821 / 68719476736 \<and> fl (4816983347778901 / 68719476736) = 4816983347778901 / 68719476736 \<and> fl (4817670542546261 / 68719476736) = 4817670542546261 / 68719476736 \<and> fl (4819938285278549 / 68719476736) = 4819938285278549 / 68719476736 \<and> fl (2410908308821333 / 34359738368) = 2410908308821333 / 34359738368"
    by (simp add: sched_value_1 sched_value_2 sched_value_3 sched_value_4 sched_value_5 sched_value_6 sched_value_7 sched_value_8 sched_value_9 sched_value_10 sched_value_11 sched_value_12 sched_value_13 sched_value_14 sched_value_15 sched_value_16 sched_value_17 sched_value_18)
  have f2: "fold sched_step [70000, 4812654020744533 / 68719476736] (0, 0) = (70000, 0)"
    by (simp add: sched_trace_0 sched_trace_1 sched_trace_2 sched_trace_3 sched_trace_4 sched_trace_5 sched_trace_6)
  have f7: "fold sched_step [70000, 4812654020744533 / 68719476736, 4814921763476821 / 68719476736, 4816983347778901 / 68719476736, 4817670542546261 / 68719476736, 4819938285278549 / 68719476736, 2410908308821333 / 34359738368] (0, 0) = (4821816617642665 / 68719476736, 5)"
    by (simp add: sched_trace_0 sched_trace_1 sched_trace_2 sched_trace_3 sched_trace_4 sched_trace_5 sched_trace_6)
  from host_frames_sched [OF p, of "[(\<lparr> d_basePair = (\<lambda>k. 0), d_link = (\<lambda>i j. 0) \<rparr>, 70000), (\<lparr> d_basePair = (\<lambda>k. 0), d_link = (\<lambda>i j. 0) \<rparr>, 4812654020744533 / 68719476736)]"] f2
  have n2: "s_time (snd (host_frames
          [(\<lparr> d_basePair = (\<lambda>k. 0), d_link = (\<lambda>i j. 0) \<rparr>, 70000),
           (\<lparr> d_basePair = (\<lambda>k. 0), d_link = (\<lambda>i j. 0) \<rparr>, 4812654020744533 / 68719476736)]
          (\<lparr> h_pending = [1], h_next = 1, h_ref = Some 1, h_contexts = 1, h_canvas = [] \<rparr>, init (\<lambda>k. 0)))) = 0"
    by (simp add: init_sched)
  from host_frames_sched [OF p, of "[(\<lparr> d_basePair = (\<lambda>k. 0), d_link = (\<lambda>i j. 0) \<rparr>, 70000), (\<lparr> d_basePair = (\<lambda>k. 0), d_link = (\<lambda>i j. 0) \<rparr>, 4812654020744533 / 68719476736), (\<lparr> d_basePair = (\<lambda>k. 0), d_link = (\<lambda>i j. 0) \<rparr>, 4814921763476821 / 68719476736), (\<lparr> d_basePair = (\<lambda>k. 0), d_link = (\<lambda>i j. 0) \<rparr>, 4816983347778901 / 68719476736), (\<lparr> d_basePair = (\<lambda>k. 0), d_link = (\<lambda>i j. 0) \<rparr>, 4817670542546261 / 68719476736), (\<lparr> d_basePair = (\<lambda>k. 0), d_link = (\<lambda>i j. 0) \<rparr>, 4819938285278549 / 68719476736), (\<lparr> d_basePair = (\<lambda>k. 0), d_link = (\<lambda>i j. 0) \<rparr>, 2410908308821333 / 34359738368)]"] f7
  have n7: "s_time (snd (host_frames
          [(\<lparr> d_basePair = (\<lambda>k. 0), d_link = (\<lambda>i j. 0) \<rparr>, 70000),
           (\<lparr> d_basePair = (\<lambda>k. 0), d_link = (\<lambda>i j. 0) \<rparr>, 4812654020744533 / 68719476736),
           (\<lparr> d_basePair = (\<lambda>k. 0), d_link = (\<lambda>i j. 0) \<rparr>, 4814921763476821 / 68719476736),
           (\<lparr> d_basePair = (\<lambda>k. 0), d_link = (\<lambda>i j. 0) \<rparr>, 4816983347778901 / 68719476736),
           (\<lparr> d_basePair = (\<lambda>k. 0), d_link = (\<lambda>i j. 0) \<rparr>, 4817670542546261 / 68719476736),
           (\<lparr> d_basePair = (\<lambda>k. 0), d_link = (\<lambda>i j. 0) \<rparr>, 4819938285278549 / 68719476736),
           (\<lparr> d_basePair = (\<lambda>k. 0), d_link = (\<lambda>i j. 0) \<rparr>, 2410908308821333 / 34359738368)]
          (\<lparr> h_pending = [1], h_next = 1, h_ref = Some 1, h_contexts = 1, h_canvas = [] \<rparr>, init (\<lambda>k. 0)))) = 5"
    by (simp add: init_sched)
  have q: "\<lfloor>(2410908308821333 / 34359738368 - 4812654020744533 / 68719476736) / frameInterval\<rfloor> = 3" "\<lfloor>(2410908308821333 / 34359738368 - 4812654020744533 / 68719476736) / (1000 / 30 :: real)\<rfloor> = 3"
    by (simp_all add: frameInterval_value)
  from m sp sq d n2 n7 q show ?thesis by blast
qed

text \<open>
  C3, amended. After mounting, the host calls back at timestamps that are doubles, the
  first of them positive, none greater than \<open>T\<close>, each no earlier than the one before it
  and less than \<open>frameInterval - 2 e\<close> after it, where \<open>e = T / 2\<^sup>5\<^sup>3\<close> bounds what
  one subtraction of \<open>animate\<close> loses by rounding. Then over the span between any two
  callbacks, of duration \<open>D\<close>, the number \<open>n\<close> of frames executed lies within one of
  \<open>D / frameInterval\<close> up to the rounding \<open>delta = (2 n + 1) e\<close>:
  \<open>\<lfloor>(D - delta) / frameInterval\<rfloor> \<le> n \<le> \<lfloor>(D + delta) / frameInterval\<rfloor> + 1\<close>; after every
  callback the marker trails the timestamp by less than \<open>frameInterval + e\<close>. For every
  call of \<open>animate\<close> with a marker that is set: when the rounded elapsed time is at
  least one interval, the counter grows by one, the new marker is the rounded
  difference of the timestamp and the remainder, and the remainder is at least zero and
  less than one interval; otherwise the scene is left as it is.
\<close>

theorem scheduler_frames_per_span:
  assumes "mount True g h0 = (h, Some s)" and "h_pending h0 = []"
    and "0 < t0"
    and "\<forall>c \<in> set (t0 # map snd (pre @ rest)). fl c = c \<and> c \<le> T"
    and "spaced_by (frameInterval - 2 * (T / 2 ^ 53)) t0 (map snd (pre @ rest))"
    and "n = int (s_time (snd (host_frames ((fd0, t0) # pre @ rest) (h, s))))
               - int (s_time (snd (host_frames ((fd0, t0) # pre) (h, s))))"
    and "D = last (t0 # map snd (pre @ rest)) - last (t0 # map snd pre)"
    and "delta = (2 * real_of_int n + 1) * (T / 2 ^ 53)"
  shows "0 \<le> n
    \<and> (real_of_int n - 1) * frameInterval - delta < D
    \<and> D < (real_of_int n + 1) * frameInterval + delta
    \<and> \<lfloor>(D - delta) / frameInterval\<rfloor> \<le> n
    \<and> n \<le> \<lfloor>(D + delta) / frameInterval\<rfloor> + 1
    \<and> 0 \<le> last (t0 # map snd (pre @ rest))
             - s_lastFrameTime (snd (host_frames ((fd0, t0) # pre @ rest) (h, s)))
    \<and> last (t0 # map snd (pre @ rest))
             - s_lastFrameTime (snd (host_frames ((fd0, t0) # pre @ rest) (h, s)))
         < frameInterval + T / 2 ^ 53
    \<and> (s_lastFrameTime s' \<noteq> 0 \<and> frameInterval \<le> fl (ct - s_lastFrameTime s') \<longrightarrow>
         s_time (snd (animate fd ct (h', s'))) = s_time s' + 1
         \<and> s_lastFrameTime (snd (animate fd ct (h', s')))
             = fl (ct - js_rem (fl (ct - s_lastFrameTime s')) frameInterval)
         \<and> 0 \<le> js_rem (fl (ct - s_lastFrameTime s')) frameInterval
         \<and> js_rem (fl (ct - s_lastFrameTime s')) frameInterval < frameInterval)
    \<and> (s_lastFrameTime s' \<noteq> 0 \<and> fl (ct - s_lastFrameTime s') < frameInterval \<longrightarrow>
         snd (animate fd ct (h', s')) = s')"
proof -
  let ?I = frameInterval
  let ?e = "T / 2 ^ 53"
  let ?st0 = "host_frame fd0 t0 (h, s)"
  let ?st1 = "host_frames pre ?st0"
  let ?st2 = "host_frames rest ?st1"
  let ?t1 = "last (t0 # map snd pre)"
  let ?t2 = "last (t0 # map snd (pre @ rest))"
  from assms(1) have hs: "h = fst (mount True g h0)" "s = init g"
    by (simp_all add: mount_def)
  have p: "one_callback_pending h" unfolding hs by (rule mount_pending [OF assms(2)])
  have s0: "s_time s = 0" "s_lastFrameTime s = 0" unfolding hs by (rule init_sched)+
  have p0: "one_callback_pending (fst ?st0)" by (rule host_frame_pending [OF p])
  from host_frame_sched [OF p, of fd0 t0 s] s0
  have L0: "s_lastFrameTime (snd ?st0) = t0" and n0: "s_time (snd ?st0) = 0"
    by (simp_all add: sched_step_def)
  from assms(3,4) have e0: "0 \<le> ?e" by simp
  from assms(5) have sp1: "spaced_by (?I - 2 * ?e) t0 (map snd pre)"
    and sp2: "spaced_by (?I - 2 * ?e) ?t1 (map snd rest)"
    by (simp_all add: spaced_append)
  from assms(4) have d1: "\<forall>c \<in> set (map snd pre). fl c = c \<and> c \<le> T"
    and d2: "\<forall>c \<in> set (map snd rest). fl c = c \<and> c \<le> T"
    by simp_all
  have i0: "0 < t0" "t0 \<le> t0" "t0 - t0 < ?I + ?e"
    using assms(3) e0 frameInterval_pos by simp_all
  from sched_run_bounds [OF i0 sp1 d1 refl, of 0]
  obtain L1 k1 where f1: "fold sched_step (map snd pre) (t0, 0) = (L1, 0 + k1)"
    and v1: "0 < L1" "L1 \<le> ?t1" "?t1 - L1 < ?I + ?e"
    by blast
  from sched_run_bounds [OF v1 sp2 d2 refl, of "0 + k1"]
  obtain L2 k where f2: "fold sched_step (map snd rest) (L1, 0 + k1) = (L2, 0 + k1 + k)"
    and v2: "0 < L2" "L2 \<le> last (?t1 # map snd rest)"
      "last (?t1 # map snd rest) - L2 < ?I + ?e"
    and drift: "\<bar>L2 - L1 - real k * ?I\<bar> \<le> 2 * real k * ?e"
    by blast
  have t2: "last (?t1 # map snd rest) = ?t2"
    by (simp only: map_append last_Cons_append [symmetric])
  from host_frames_sched [OF p0, of pre] L0 n0 f1
  have p1: "one_callback_pending (fst ?st1)"
    and r1: "s_lastFrameTime (snd ?st1) = L1" "s_time (snd ?st1) = k1"
    by simp_all
  from host_frames_sched [OF p1, of rest] r1 f2
  have r2: "s_lastFrameTime (snd ?st2) = L2" "s_time (snd ?st2) = k1 + k"
    by simp_all
  have run1: "host_frames ((fd0, t0) # pre) (h, s) = ?st1"
    by (simp add: host_frames_Cons)
  have run2: "host_frames ((fd0, t0) # pre @ rest) (h, s) = ?st2"
    by (simp add: host_frames_Cons host_frames_append)
  from assms(6) r1 r2 have n: "n = int k" by (simp add: run1 run2)
  from assms(8) n have delta: "delta = (2 * real k + 1) * ?e" by simp
  from assms(7) have D: "D = ?t2 - ?t1" .
  have w2: "L2 \<le> ?t2" "?t2 - L2 < ?I + ?e"
    using v2(2,3) unfolding t2 by linarith+
  have w3: "0 \<le> ?t2 - L2"
    using v2(2) unfolding t2 by linarith
  have lo: "(real k - 1) * ?I - delta < D" and hi: "D < (real k + 1) * ?I + delta"
    unfolding D delta by (rule span_bounds [OF v1(2,3) w2 drift])+
  from lo frameInterval_pos have "real k - 1 < (D + delta) / ?I"
    by (simp add: field_simps)
  then have "real_of_int (int k - 1) < (D + delta) / ?I" by simp
  then have fa: "int k - 1 \<le> \<lfloor>(D + delta) / ?I\<rfloor>"
    by (simp only: le_floor_iff less_imp_le)
  from hi frameInterval_pos have "(D - delta) / ?I < real k + 1"
    by (simp add: field_simps)
  then have "(D - delta) / ?I < real_of_int (int k + 1)" by simp
  then have fb: "\<lfloor>(D - delta) / ?I\<rfloor> < int k + 1"
    by (simp only: floor_less_iff)
  have c: "s_lastFrameTime s' \<noteq> 0 \<and> ?I \<le> fl (ct - s_lastFrameTime s') \<longrightarrow>
         s_time (snd (animate fd ct (h', s'))) = s_time s' + 1
         \<and> s_lastFrameTime (snd (animate fd ct (h', s')))
             = fl (ct - js_rem (fl (ct - s_lastFrameTime s')) ?I)
         \<and> 0 \<le> js_rem (fl (ct - s_lastFrameTime s')) ?I
         \<and> js_rem (fl (ct - s_lastFrameTime s')) ?I < ?I"
  proof
    assume acc: "s_lastFrameTime s' \<noteq> 0 \<and> ?I \<le> fl (ct - s_lastFrameTime s')"
    with frameInterval_pos have "0 \<le> fl (ct - s_lastFrameTime s')" by simp
    from js_rem_range [OF frameInterval_pos this] animate_sched [of fd ct h' s'] acc
    show "s_time (snd (animate fd ct (h', s'))) = s_time s' + 1
         \<and> s_lastFrameTime (snd (animate fd ct (h', s')))
             = fl (ct - js_rem (fl (ct - s_lastFrameTime s')) ?I)
         \<and> 0 \<le> js_rem (fl (ct - s_lastFrameTime s')) ?I
         \<and> js_rem (fl (ct - s_lastFrameTime s')) ?I < ?I"
      by (simp add: sched_step_accept)
  qed
  have d: "s_lastFrameTime s' \<noteq> 0 \<and> fl (ct - s_lastFrameTime s') < ?I \<longrightarrow>
         snd (animate fd ct (h', s')) = s'"
    by (simp add: animate_def Let_def)
  from lo hi fa fb w2(2) w3 c d show ?thesis
    unfolding run2 r2 n by simp
qed

lemma sched_witness_value_1: "fl (1000) = 1000"
  by (rule fl_near [where e = "9" and n = "8796093022208000"]) (simp_all add: powr_neg_numeral)

lemma sched_witness_value_2: "fl (1020) = 1020"
  by (rule fl_near [where e = "9" and n = "8972014882652160"]) (simp_all add: powr_neg_numeral)

lemma sched_witness_value_3: "fl (20) = 20"
  by (rule fl_near [where e = "4" and n = "5629499534213120"]) (simp_all add: powr_neg_numeral)

lemma sched_witness_value_4: "fl (1040) = 1040"
  by (rule fl_near [where e = "10" and n = "4573968371548160"]) (simp_all add: powr_neg_numeral)

lemma sched_witness_value_5: "fl (40) = 40"
  by (rule fl_near [where e = "5" and n = "5629499534213120"]) (simp_all add: powr_neg_numeral)

lemma sched_witness_value_6: "fl (145428737967172267 / 140737488355328) = 4544648061474133 / 4398046511104"
  by (rule fl_near [where e = "10" and n = "4544648061474133"]) (simp_all add: powr_neg_numeral)

lemma sched_witness_trace_0: "sched_step (1000) (0, n) = (1000, n)"
  by (simp add: sched_step_def Let_def frameInterval_value js_rem_def sched_witness_value_1 sched_witness_value_2 sched_witness_value_3 sched_witness_value_4 sched_witness_value_5 sched_witness_value_6)

lemma sched_witness_trace_1: "sched_step (1020) (1000, n) = (1000, n)"
  by (simp add: sched_step_def Let_def frameInterval_value js_rem_def sched_witness_value_1 sched_witness_value_2 sched_witness_value_3 sched_witness_value_4 sched_witness_value_5 sched_witness_value_6)

lemma sched_witness_trace_2: "sched_step (1040) (1000, n) = (4544648061474133 / 4398046511104, n + 1)"
  by (simp add: sched_step_def Let_def frameInterval_value js_rem_def sched_witness_value_1 sched_witness_value_2 sched_witness_value_3 sched_witness_value_4 sched_witness_value_5 sched_witness_value_6)

theorem scheduler_frames_per_span_witness:
  "mount True (\<lambda>k. 0) \<lparr> h_pending = [], h_next = 0, h_ref = None, h_contexts = 0, h_canvas = [] \<rparr>
     = (\<lparr> h_pending = [1], h_next = 1, h_ref = Some 1, h_contexts = 1, h_canvas = [] \<rparr>, Some (init (\<lambda>k. 0)))
   \<and> fl 1000 = 1000 \<and> fl 1020 = 1020 \<and> fl 1040 = 1040 \<and> (1040 :: real) \<le> 2048
   \<and> spaced_by (frameInterval - 2 * (2048 / 2 ^ 53)) 1000
        (map snd ([] @ [(\<lparr> d_basePair = (\<lambda>k. 0), d_link = (\<lambda>i j. 0) \<rparr>, 1020), (\<lparr> d_basePair = (\<lambda>k. 0), d_link = (\<lambda>i j. 0) \<rparr>, 1040 :: real)]))
   \<and> s_time (snd (host_frames [(\<lparr> d_basePair = (\<lambda>k. 0), d_link = (\<lambda>i j. 0) \<rparr>, 1000), (\<lparr> d_basePair = (\<lambda>k. 0), d_link = (\<lambda>i j. 0) \<rparr>, 1020), (\<lparr> d_basePair = (\<lambda>k. 0), d_link = (\<lambda>i j. 0) \<rparr>, 1040)] (\<lparr> h_pending = [1], h_next = 1, h_ref = Some 1, h_contexts = 1, h_canvas = [] \<rparr>, init (\<lambda>k. 0)))) = 1
   \<and> \<lfloor>(40 - 3 * (2048 / 2 ^ 53)) / frameInterval\<rfloor> \<le> (1 :: int)
   \<and> (1 :: int) \<le> \<lfloor>(40 + 3 * (2048 / 2 ^ 53)) / frameInterval\<rfloor> + 1"
proof -
  have m: "mount True (\<lambda>k. 0) \<lparr> h_pending = [], h_next = 0, h_ref = None, h_contexts = 0, h_canvas = [] \<rparr> = (\<lparr> h_pending = [1], h_next = 1, h_ref = Some 1, h_contexts = 1, h_canvas = [] \<rparr>, Some (init (\<lambda>k. 0)))"
    by (simp add: mount_def requestAnimationFrame_def Let_def)
  have e: "h_pending \<lparr> h_pending = [], h_next = 0, h_ref = None, h_contexts = 0, h_canvas = [] \<rparr> = []" by simp
  have z: "(0::real) < 1000" by simp
  have dbl: "\<forall>c \<in> set (1000 # map snd ([] @ [(\<lparr> d_basePair = (\<lambda>k. 0), d_link = (\<lambda>i j. 0) \<rparr>, 1020), (\<lparr> d_basePair = (\<lambda>k. 0), d_link = (\<lambda>i j. 0) \<rparr>, 1040 :: real)])). fl c = c \<and> c \<le> 2048"
    by (simp add: sched_witness_value_1 sched_witness_value_2 sched_witness_value_3 sched_witness_value_4 sched_witness_value_5 sched_witness_value_6)
  have sp: "spaced_by (frameInterval - 2 * (2048 / 2 ^ 53)) 1000 (map snd ([] @ [(\<lparr> d_basePair = (\<lambda>k. 0), d_link = (\<lambda>i j. 0) \<rparr>, 1020), (\<lparr> d_basePair = (\<lambda>k. 0), d_link = (\<lambda>i j. 0) \<rparr>, 1040 :: real)]))"
    by (simp add: frameInterval_value)
  have p: "one_callback_pending (fst (\<lparr> h_pending = [1], h_next = 1, h_ref = Some 1, h_contexts = 1, h_canvas = [] \<rparr>, init (\<lambda>k. 0)))"
    by (simp add: one_callback_pending_def)
  have f1: "fold sched_step [1000] (0, 0) = (1000, 0)"
    by (simp add: sched_witness_trace_0)
  have f3: "fold sched_step [1000, 1020, 1040] (0, 0) = (4544648061474133 / 4398046511104, 1)"
    by (simp add: sched_witness_trace_0 sched_witness_trace_1 sched_witness_trace_2)
  from host_frames_sched [OF p, of "[(\<lparr> d_basePair = (\<lambda>k. 0), d_link = (\<lambda>i j. 0) \<rparr>, 1000)]"] f1
  have n1: "s_time (snd (host_frames [(\<lparr> d_basePair = (\<lambda>k. 0), d_link = (\<lambda>i j. 0) \<rparr>, 1000)] (\<lparr> h_pending = [1], h_next = 1, h_ref = Some 1, h_contexts = 1, h_canvas = [] \<rparr>, init (\<lambda>k. 0)))) = 0"
    by (simp add: init_sched)
  from host_frames_sched [OF p, of "[(\<lparr> d_basePair = (\<lambda>k. 0), d_link = (\<lambda>i j. 0) \<rparr>, 1000), (\<lparr> d_basePair = (\<lambda>k. 0), d_link = (\<lambda>i j. 0) \<rparr>, 1020), (\<lparr> d_basePair = (\<lambda>k. 0), d_link = (\<lambda>i j. 0) \<rparr>, 1040)]"] f3
  have n3: "s_time (snd (host_frames [(\<lparr> d_basePair = (\<lambda>k. 0), d_link = (\<lambda>i j. 0) \<rparr>, 1000), (\<lparr> d_basePair = (\<lambda>k. 0), d_link = (\<lambda>i j. 0) \<rparr>, 1020), (\<lparr> d_basePair = (\<lambda>k. 0), d_link = (\<lambda>i j. 0) \<rparr>, 1040)] (\<lparr> h_pending = [1], h_next = 1, h_ref = Some 1, h_contexts = 1, h_canvas = [] \<rparr>, init (\<lambda>k. 0)))) = 1"
    by (simp add: init_sched)
  note r = scheduler_frames_per_span [where ?fd0.0 = "\<lparr> d_basePair = (\<lambda>k. 0), d_link = (\<lambda>i j. 0) \<rparr>", OF m e z dbl sp refl refl refl]
  from r n1 n3 have "\<lfloor>(40 - 3 * (2048 / 2 ^ 53)) / frameInterval\<rfloor> \<le> (1 :: int)
     \<and> (1 :: int) \<le> \<lfloor>(40 + 3 * (2048 / 2 ^ 53)) / frameInterval\<rfloor> + 1"
    by simp
  moreover have "fl 1000 = 1000 \<and> fl 1020 = 1020 \<and> fl 1040 = 1040 \<and> (1040 :: real) \<le> 2048"
    by (simp add: sched_witness_value_1 sched_witness_value_2 sched_witness_value_3 sched_witness_value_4 sched_witness_value_5 sched_witness_value_6)
  ultimately show ?thesis using m sp n3 by blast
qed


subsection \<open>Mounting and teardown\<close>

lemma host_frames_pending:
  assumes "one_callback_pending (fst st)"
  shows "one_callback_pending (fst (host_frames cbs st))"
  using assms
proof (induction cbs arbitrary: st)
  case Nil
  then show ?case by (simp add: host_frames_def)
next
  case (Cons cb cbs)
  obtain fd c where cb: "cb = (fd, c)" by (cases cb)
  obtain h s where st: "st = (h, s)" by (cases st)
  from Cons.prems st have "one_callback_pending (fst (host_frame fd c (h, s)))"
    by (simp add: host_frame_pending)
  from Cons.IH [OF this] show ?case by (simp add: cb st host_frames_Cons)
qed

lemma cleanup_pending:
  assumes "one_callback_pending h"
  shows "h_pending (cleanup h) = []" and "h_ref (cleanup h) = None"
    and "h_canvas (cleanup h) = h_canvas h @ [ClearRect 0 0 width height]"
    and "h_contexts (cleanup h) = h_contexts h"
  using assms by (simp_all add: cleanup_def one_callback_pending_def)

lemma host_frame_idle:
  assumes "h_pending h = []"
  shows "host_frame fd ct (h, s) = (h, s)"
  using assms by (cases h) (simp add: host_frame_def)

lemma host_frames_idle:
  assumes "h_pending h = []"
  shows "host_frames cbs (h, s) = (h, s)"
  using assms
  by (induction cbs) (auto simp add: host_frames_def host_frame_idle)

text \<open>
  C8: without a canvas the effect leaves the host as it was: no context acquired, nothing
  scheduled, and no scene. With a canvas, after any number of animation frames, none
  included, the cleanup cancels the scheduled callback, resets the reference, and clears
  the whole canvas; animation frames that the host runs afterwards call nothing.
\<close>

theorem mount_guard_and_teardown:
  assumes "mount True g h0 = (h, Some s)" and "h_pending h0 = []"
  shows "mount False g h0 = (h0, None)
    \<and> h_contexts h = h_contexts h0 + 1
    \<and> one_callback_pending h
    \<and> one_callback_pending (fst (host_frames cbs (h, s)))
    \<and> h_pending (cleanup (fst (host_frames cbs (h, s)))) = []
    \<and> h_ref (cleanup (fst (host_frames cbs (h, s)))) = None
    \<and> h_canvas (cleanup (fst (host_frames cbs (h, s))))
         = h_canvas (fst (host_frames cbs (h, s))) @ [ClearRect 0 0 800 600]
    \<and> host_frames later (cleanup (fst (host_frames cbs (h, s))), snd (host_frames cbs (h, s)))
         = (cleanup (fst (host_frames cbs (h, s))), snd (host_frames cbs (h, s)))"
proof -
  from assms(1) have hs: "h = fst (mount True g h0)" by simp
  have p: "one_callback_pending h" unfolding hs by (rule mount_pending [OF assms(2)])
  then have p': "one_callback_pending (fst (host_frames cbs (h, s)))"
    by (simp add: host_frames_pending)
  note c = cleanup_pending [OF p']
  have "h_contexts h = h_contexts h0 + 1"
    unfolding hs by (simp add: mount_def requestAnimationFrame_def Let_def)
  moreover have "mount False g h0 = (h0, None)" by (simp add: mount_def)
  moreover note host_frames_idle [OF c(1)]
  ultimately show ?thesis using p p' c by (simp add: width_def height_def)
qed


theorem mount_guard_and_teardown_witness:
  "mount True (\<lambda>k. 0) \<lparr> h_pending = [], h_next = 0, h_ref = None, h_contexts = 0, h_canvas = [] \<rparr> = (\<lparr> h_pending = [1], h_next = 1, h_ref = Some 1, h_contexts = 1, h_canvas = [] \<rparr>, Some (init (\<lambda>k. 0)))
   \<and> h_pending \<lparr> h_pending = [], h_next = 0, h_ref = None, h_contexts = 0, h_canvas = [] \<rparr> = []
   \<and> mount False (\<lambda>k. 0) \<lparr> h_pending = [], h_next = 0, h_ref = None, h_contexts = 0, h_canvas = [] \<rparr> = (\<lparr> h_pending = [], h_next = 0, h_ref = None, h_contexts = 0, h_canvas = [] \<rparr>, None)
   \<and> h_pending (cleanup (fst (host_frames [] (\<lparr> h_pending = [1], h_next = 1, h_ref = Some 1, h_contexts = 1, h_canvas = [] \<rparr>, init (\<lambda>k. 0))))) = []
   \<and> h_ref (cleanup (fst (host_frames [] (\<lparr> h_pending = [1], h_next = 1, h_ref = Some 1, h_contexts = 1, h_canvas = [] \<rparr>, init (\<lambda>k. 0))))) = None
   \<and> h_canvas (cleanup (fst (host_frames [] (\<lparr> h_pending = [1], h_next = 1, h_ref = Some 1, h_contexts = 1, h_canvas = [] \<rparr>, init (\<lambda>k. 0))))) = [ClearRect 0 0 800 600]
   \<and> host_frames [(\<lparr> d_basePair = (\<lambda>k. 0), d_link = (\<lambda>i j. 0) \<rparr>, 16)]
         (cleanup (fst (host_frames [] (\<lparr> h_pending = [1], h_next = 1, h_ref = Some 1, h_contexts = 1, h_canvas = [] \<rparr>, init (\<lambda>k. 0)))),
          snd (host_frames [] (\<lparr> h_pending = [1], h_next = 1, h_ref = Some 1, h_contexts = 1, h_canvas = [] \<rparr>, init (\<lambda>k. 0))))
       = (cleanup (fst (host_frames [] (\<lparr> h_pending = [1], h_next = 1, h_ref = Some 1, h_contexts = 1, h_canvas = [] \<rparr>, init (\<lambda>k. 0)))),
          snd (host_frames [] (\<lparr> h_pending = [1], h_next = 1, h_ref = Some 1, h_contexts = 1, h_canvas = [] \<rparr>, init (\<lambda>k. 0))))"
proof -
  have m: "mount True (\<lambda>k. 0) \<lparr> h_pending = [], h_next = 0, h_ref = None, h_contexts = 0, h_canvas = [] \<rparr> = (\<lparr> h_pending = [1], h_next = 1, h_ref = Some 1, h_contexts = 1, h_canvas = [] \<rparr>, Some (init (\<lambda>k. 0)))"
    by (simp add: mount_def requestAnimationFrame_def Let_def)
  have e: "h_pending \<lparr> h_pending = [], h_next = 0, h_ref = None, h_contexts = 0, h_canvas = [] \<rparr> = []" by simp
  have c: "h_canvas (fst (host_frames [] (\<lparr> h_pending = [1], h_next = 1, h_ref = Some 1, h_contexts = 1, h_canvas = [] \<rparr>, init (\<lambda>k. 0)))) = []"
    by (simp add: host_frames_def)
  from mount_guard_and_teardown [OF m e, of "[]" "[(\<lparr> d_basePair = (\<lambda>k. 0), d_link = (\<lambda>i j. 0) \<rparr>, 16)]"] m e c
  show ?thesis by simp
qed

subsection \<open>The entities are fixed\<close>

lemma init_fold_lists:
  "s_backboneParticles1 (fold (init_step g) [0..<n] s)
     = s_backboneParticles1 s
         @ map (\<lambda>i. BackboneParticle_new i 1 (\<lambda>k. g (17 * i + k)) (2 * i)) [0..<n]
   \<and> s_backboneParticles2 (fold (init_step g) [0..<n] s)
     = s_backboneParticles2 s
         @ map (\<lambda>i. BackboneParticle_new i 2 (\<lambda>k. g (17 * i + 6 + k)) (2 * i + 1)) [0..<n]
   \<and> s_basePairs (fold (init_step g) [0..<n] s)
     = s_basePairs s @ map (\<lambda>i. BasePair_new i (\<lambda>k. g (17 * i + 12 + k))) [0..<n]"
  by (induction n) (simp_all add: init_step_def)

lemma init_lists:
  "s_backboneParticles1 (init g)
     = map (\<lambda>i. BackboneParticle_new i 1 (\<lambda>k. g (17 * i + k)) (2 * i)) [0..<numBasePairs]"
  "s_backboneParticles2 (init g)
     = map (\<lambda>i. BackboneParticle_new i 2 (\<lambda>k. g (17 * i + 6 + k)) (2 * i + 1))
         [0..<numBasePairs]"
  "s_basePairs (init g)
     = map (\<lambda>i. BasePair_new i (\<lambda>k. g (17 * i + 12 + k))) [0..<numBasePairs]"
  by (simp_all add: init_def init_fold_lists)

lemma bond_step_static:
  "(bond_step r1 r2 b)\<lparr> b_isConnected := c, b_reconnectionTimer := k \<rparr>
     = b\<lparr> b_isConnected := c, b_reconnectionTimer := k \<rparr>"
  by (simp add: bond_step_def Let_def)

lemma BasePair_update_static:
  "(fst (BasePair_update u b t))\<lparr> b_isConnected := c, b_reconnectionTimer := k \<rparr>
     = b\<lparr> b_isConnected := c, b_reconnectionTimer := k \<rparr>"
  by (simp add: BasePair_update_bond bond_step_static)

lemma frame_basePairs:
  "map (\<lambda>b. b\<lparr> b_isConnected := c, b_reconnectionTimer := k \<rparr>)
       (s_basePairs (snd (frame fd (h, s))))
     = map (\<lambda>b. b\<lparr> b_isConnected := c, b_reconnectionTimer := k \<rparr>) (s_basePairs s)"
proof -
  have "map (\<lambda>b. b\<lparr> b_isConnected := c, b_reconnectionTimer := k \<rparr>)
          (map fst (map (\<lambda>(i, p). BasePair_update (d_basePair fd i) p t) xs))
        = map (\<lambda>b. b\<lparr> b_isConnected := c, b_reconnectionTimer := k \<rparr>) (map snd xs)"
    for t and xs :: "(nat \<times> BasePair) list"
    by (induction xs) (auto simp add: BasePair_update_static)
  then show ?thesis
    by (simp add: frame_def Let_def split_beta del: map_map)
qed

lemma animate_entities:
  "s_backboneParticles1 (snd (animate fd ct st)) = s_backboneParticles1 (snd st)
   \<and> s_backboneParticles2 (snd (animate fd ct st)) = s_backboneParticles2 (snd st)
   \<and> map (\<lambda>b. b\<lparr> b_isConnected := c, b_reconnectionTimer := k \<rparr>)
          (s_basePairs (snd (animate fd ct st)))
       = map (\<lambda>b. b\<lparr> b_isConnected := c, b_reconnectionTimer := k \<rparr>) (s_basePairs (snd st))"
  by (cases st) (simp add: animate_def Let_def split_beta frame_entities frame_basePairs)

lemma fold_animate_entities:
  "s_backboneParticles1 (snd (fold (\<lambda>handle. animate fd ct) hs st))
       = s_backboneParticles1 (snd st)
   \<and> s_backboneParticles2 (snd (fold (\<lambda>handle. animate fd ct) hs st))
       = s_backboneParticles2 (snd st)
   \<and> map (\<lambda>b. b\<lparr> b_isConnected := c, b_reconnectionTimer := k \<rparr>)
          (s_basePairs (snd (fold (\<lambda>handle. animate fd ct) hs st)))
       = map (\<lambda>b. b\<lparr> b_isConnected := c, b_reconnectionTimer := k \<rparr>) (s_basePairs (snd st))"
  by (induction hs arbitrary: st) (simp_all add: animate_entities)

lemma host_frame_entities:
  "s_backboneParticles1 (snd (host_frame fd ct st)) = s_backboneParticles1 (snd st)
   \<and> s_backboneParticles2 (snd (host_frame fd ct st)) = s_backboneParticles2 (snd st)
   \<and> map (\<lambda>b. b\<lparr> b_isConnected := c, b_reconnectionTimer := k \<rparr>)
          (s_basePairs (snd (host_frame fd ct st)))
       = map (\<lambda>b. b\<lparr> b_isConnected := c, b_reconnectionTimer := k \<rparr>) (s_basePairs (snd st))"
  by (cases st) (simp add: host_frame_def fold_animate_entities)

lemma host_frames_entities:
  "s_backboneParticles1 (snd (host_frames cbs st)) = s_backboneParticles1 (snd st)
   \<and> s_backboneParticles2 (snd (host_frames cbs st)) = s_backboneParticles2 (snd st)
   \<and> map (\<lambda>b. b\<lparr> b_isConnected := c, b_reconnectionTimer := k \<rparr>)
          (s_basePairs (snd (host_frames cbs st)))
       = map (\<lambda>b. b\<lparr> b_isConnected := c, b_reconnectionTimer := k \<rparr>) (s_basePairs (snd st))"
proof (induction cbs arbitrary: st)
  case Nil
  then show ?case by (simp add: host_frames_def)
next
  case (Cons cb cbs)
  obtain fd ct where cb: "cb = (fd, ct)" by (cases cb)
  from Cons.IH [of "host_frame fd ct st"]
    host_frame_entities [where fd = fd and ct = ct and st = st and c = c and k = k]
  show ?case by (simp add: cb host_frames_Cons)
qed


lemma init_basePairs_fresh:
  "map (\<lambda>b. b\<lparr> b_isConnected := True, b_reconnectionTimer := 0 \<rparr>) (s_basePairs (init g))
     = s_basePairs (init g)"
  by (simp add: init_lists BasePair_new_def Let_def)

lemma init_indices:
  "map p_bpIndex (s_backboneParticles1 (init g)) = [0..<numBasePairs]"
  "map p_bpIndex (s_backboneParticles2 (init g)) = [0..<numBasePairs]"
  "map b_bpIndex (s_basePairs (init g)) = [0..<numBasePairs]"
  "map p_strand (s_backboneParticles1 (init g)) = replicate numBasePairs 1"
  "map p_strand (s_backboneParticles2 (init g)) = replicate numBasePairs 2"
  by (simp_all add: init_lists BackboneParticle_new_def BasePair_new_def Let_def comp_def
        map_replicate_const)

text \<open>
  C7: the effect creates \<open>numBasePairs = 80\<close> particles of strand 1, as many of strand
  2 and as many base pairs, with the indices 0 to 79 in order. Whatever callbacks the
  host runs afterwards, the two arrays of particles stay as they were created, and the
  array of base pairs differs from the created one in nothing but the connected flags and
  the reconnection counters.
\<close>

theorem entities_fixed_through_run:
  "snd (mount True g h0) = Some (init g)
   \<and> numBasePairs = 80
   \<and> length (s_backboneParticles1 (init g)) = numBasePairs
   \<and> length (s_backboneParticles2 (init g)) = numBasePairs
   \<and> length (s_basePairs (init g)) = numBasePairs
   \<and> map p_bpIndex (s_backboneParticles1 (init g)) = [0..<numBasePairs]
   \<and> map p_bpIndex (s_backboneParticles2 (init g)) = [0..<numBasePairs]
   \<and> map p_strand (s_backboneParticles1 (init g)) = replicate numBasePairs 1
   \<and> map p_strand (s_backboneParticles2 (init g)) = replicate numBasePairs 2
   \<and> map b_bpIndex (s_basePairs (init g)) = [0..<numBasePairs]
   \<and> s_backboneParticles1 (snd (host_frames cbs (h, init g))) = s_backboneParticles1 (init g)
   \<and> s_backboneParticles2 (snd (host_frames cbs (h, init g))) = s_backboneParticles2 (init g)
   \<and> map (\<lambda>b. b\<lparr> b_isConnected := True, b_reconnectionTimer := 0 \<rparr>)
          (s_basePairs (snd (host_frames cbs (h, init g))))
       = s_basePairs (init g)
   \<and> length (s_basePairs (snd (host_frames cbs (h, init g)))) = numBasePairs
   \<and> map b_bpIndex (s_basePairs (snd (host_frames cbs (h, init g)))) = [0..<numBasePairs]"
proof -
  let ?N = "\<lambda>b. b\<lparr> b_isConnected := True, b_reconnectionTimer := 0 \<rparr>"
  let ?bps = "s_basePairs (snd (host_frames cbs (h, init g)))"
  note run = host_frames_entities [where cbs = cbs and st = "(h, init g)" and c = True and k = 0]
  from run have n: "map ?N ?bps = s_basePairs (init g)"
    by (simp add: init_basePairs_fresh)
  have len0: "length (s_basePairs (init g)) = numBasePairs" by (simp add: init_lists)
  from n have "length (map ?N ?bps) = length (s_basePairs (init g))" by simp
  then have len: "length ?bps = numBasePairs" by (simp add: len0)
  have "map b_bpIndex ?bps = map b_bpIndex (map ?N ?bps)" by (simp add: comp_def)
  then have idx: "map b_bpIndex ?bps = [0..<numBasePairs]"
    by (simp only: n init_indices)
  have m: "snd (mount True g h0) = Some (init g)" by (simp add: mount_def)
  have l1: "length (s_backboneParticles1 (init g)) = numBasePairs"
    and l2: "length (s_backboneParticles2 (init g)) = numBasePairs"
    by (simp_all add: init_lists)
  from m l1 l2 len0 init_indices [of g] run n len idx show ?thesis
    by (simp add: numBasePairs_def)
qed

subsection \<open>The short-range link pass\<close>

lemma link_body_eq:
  "link_body r pts i j (sets, out) =
     (if link_gate r pts i j
      then ((sets(pt_connections (pts ! i) := insert j (sets (pt_connections (pts ! i)))))
              (pt_connections (pts ! j) :=
                 insert i ((sets(pt_connections (pts ! i) := insert j (sets (pt_connections (pts ! i)))))
                             (pt_connections (pts ! j)))),
            out @ [link_stroke pts i j])
      else (sets, out))"
  by (simp add: link_body_def link_gate_def link_stroke_def Let_def)

lemma nested_fold_pairs:
  "fold (\<lambda>i. fold (\<lambda>j. F i j) (js i)) ks st
     = fold (\<lambda>(i, j). F i j) (concat (map (\<lambda>i. map (Pair i) (js i)) ks)) st"
  by (induction ks arbitrary: st) (simp_all add: fold_map comp_def)

lemma address_eq_index:
  assumes "distinct (map pt_connections pts)" and "i < length pts" and "k < length pts"
  shows "pt_connections (pts ! i) = pt_connections (pts ! k) \<longleftrightarrow> i = k"
  using assms nth_eq_iff_index_eq [of "map pt_connections pts" i k] by simp

lemma fold_link_body:
  assumes d: "distinct (map pt_connections pts)"
    and r: "\<forall>(i, j) \<in> set ps. i < length pts \<and> j < length pts"
    and k: "k < length pts"
  shows "fst (fold (\<lambda>(i, j). link_body r pts i j) ps (sets, out)) (pt_connections (pts ! k))
           = sets (pt_connections (pts ! k))
               \<union> {j. (k, j) \<in> set ps \<and> link_gate r pts k j}
               \<union> {i. (i, k) \<in> set ps \<and> link_gate r pts i k}
    \<and> snd (fold (\<lambda>(i, j). link_body r pts i j) ps (sets, out))
           = out @ map (\<lambda>(i, j). link_stroke pts i j)
                     (filter (\<lambda>(i, j). link_gate r pts i j) ps)"
  using r
proof (induction ps arbitrary: sets out)
  case Nil
  then show ?case by simp
next
  case (Cons p ps)
  obtain i j where p: "p = (i, j)" by (cases p)
  from Cons.prems p have ij: "i < length pts" "j < length pts"
    and rest: "\<forall>(i, j) \<in> set ps. i < length pts \<and> j < length pts" by auto
  note ai = address_eq_index [OF d ij(1) k] and aj = address_eq_index [OF d ij(2) k]
  show ?case
  proof (cases "link_gate r pts i j")
    case False
    with Cons.IH [OF rest, of sets out] show ?thesis
      by (auto simp add: p link_body_eq)
  next
    case True
    define s1 where "s1 = sets(pt_connections (pts ! i) := insert j (sets (pt_connections (pts ! i))))"
    define s2 where "s2 = s1(pt_connections (pts ! j) := insert i (s1 (pt_connections (pts ! j))))"
    have step: "link_body r pts i j (sets, out) = (s2, out @ [link_stroke pts i j])"
      using True by (simp add: link_body_eq s1_def s2_def)
    have s2: "s2 (pt_connections (pts ! k))
                = sets (pt_connections (pts ! k))
                    \<union> (if k = i then {j} else {}) \<union> (if k = j then {i} else {})"
      using ai aj by (auto simp add: s1_def s2_def)
    have A: "{j'. (k, j') \<in> set (p # ps) \<and> link_gate r pts k j'}
               = (if k = i then {j} else {}) \<union> {j'. (k, j') \<in> set ps \<and> link_gate r pts k j'}"
      using True by (auto simp add: p)
    have B: "{i'. (i', k) \<in> set (p # ps) \<and> link_gate r pts i' k}
               = (if k = j then {i} else {}) \<union> {i'. (i', k) \<in> set ps \<and> link_gate r pts i' k}"
      using True by (auto simp add: p)
    have run: "fold (\<lambda>(i, j). link_body r pts i j) (p # ps) (sets, out)
                 = fold (\<lambda>(i, j). link_body r pts i j) ps (s2, out @ [link_stroke pts i j])"
      by (simp add: p step)
    note ih = Cons.IH [OF rest, of s2 "out @ [link_stroke pts i j]"]
    from ih have "fst (fold (\<lambda>(i, j). link_body r pts i j) (p # ps) (sets, out))
                    (pt_connections (pts ! k))
            = sets (pt_connections (pts ! k))
               \<union> {j'. (k, j') \<in> set (p # ps) \<and> link_gate r pts k j'}
               \<union> {i'. (i', k) \<in> set (p # ps) \<and> link_gate r pts i' k}"
      unfolding run s2 A B by blast
    moreover from ih True
    have "snd (fold (\<lambda>(i, j). link_body r pts i j) (p # ps) (sets, out))
           = out @ map (\<lambda>(i, j). link_stroke pts i j)
                     (filter (\<lambda>(i, j). link_gate r pts i j) (p # ps))"
      unfolding run by (simp add: p)
    ultimately show ?thesis by blast
  qed
qed

lemma fold_link_body_out:
  "snd (fold (\<lambda>(i, j). link_body r pts i j) ps (sets, out))
     = out @ map (\<lambda>(i, j). link_stroke pts i j)
               (filter (\<lambda>(i, j). link_gate r pts i j) ps)"
proof (induction ps arbitrary: sets out)
  case Nil
  then show ?case by simp
next
  case (Cons p ps)
  obtain i j where p: "p = (i, j)" by (cases p)
  show ?case
    by (cases "link_gate r pts i j") (simp_all add: p link_body_eq Cons.IH)
qed

lemma link_pairs_set:
  "(i, j) \<in> set (concat (map (\<lambda>i. map (Pair i) [i + 1..<n]) [0..<n])) \<longleftrightarrow> i < j \<and> j < n"
  by force


lemma short_range_links_sets:
  assumes "distinct (map pt_connections pts)" and "k < length pts"
  shows "fst (short_range_links r pts (sets, out)) (pt_connections (pts ! k))
           = sets (pt_connections (pts ! k))
               \<union> {j. k < j \<and> j < length pts \<and> link_gate r pts k j}
               \<union> {i. i < k \<and> link_gate r pts i k}"
proof -
  let ?ps = "concat (map (\<lambda>i. map (Pair i) [i + 1..<length pts]) [0..<length pts])"
  have r: "\<forall>(i, j) \<in> set ?ps. i < length pts \<and> j < length pts"
    using link_pairs_set [of _ _ "length pts"] by fastforce
  have run: "short_range_links r pts (sets, out)
               = fold (\<lambda>(i, j). link_body r pts i j) ?ps (sets, out)"
    unfolding short_range_links_def by (rule nested_fold_pairs)
  from fold_link_body [OF assms(1) r assms(2), of r sets out] assms(2)
  show ?thesis unfolding run by (auto simp only: link_pairs_set)
qed

lemma short_range_links_out:
  "snd (short_range_links r pts (sets, out))
     = out @ map (\<lambda>(i, j). link_stroke pts i j)
               (filter (\<lambda>(i, j). link_gate r pts i j)
                  (concat (map (\<lambda>i. map (Pair i) [i + 1..<length pts]) [0..<length pts])))"
  unfolding short_range_links_def nested_fold_pairs by (rule fold_link_body_out)

lemma links_symmetric:
  assumes d: "distinct (map pt_connections pts)"
    and c: "\<forall>p \<in> set pts. sets (pt_connections p) = {}"
    and i: "i < length pts" and j: "j < length pts"
  shows "(j \<in> fst (short_range_links r pts (sets, out)) (pt_connections (pts ! i)))
           = (i \<in> fst (short_range_links r pts (sets, out)) (pt_connections (pts ! j)))"
    and "i < j \<Longrightarrow>
           (j \<in> fst (short_range_links r pts (sets, out)) (pt_connections (pts ! i)))
             = link_gate r pts i j"
proof -
  from c i j have e: "sets (pt_connections (pts ! i)) = {}" "sets (pt_connections (pts ! j)) = {}"
    by simp_all
  note si = short_range_links_sets [OF d i, of r sets out]
    and sj = short_range_links_sets [OF d j, of r sets out]
  show "(j \<in> fst (short_range_links r pts (sets, out)) (pt_connections (pts ! i)))
           = (i \<in> fst (short_range_links r pts (sets, out)) (pt_connections (pts ! j)))"
    unfolding si sj e using i j by auto
  show "i < j \<Longrightarrow>
           (j \<in> fst (short_range_links r pts (sets, out)) (pt_connections (pts ! i)))
             = link_gate r pts i j"
    unfolding si e using j by auto
qed

lemma clear_connections_apply:
  "clear_connections pts sets a = (if a \<in> pt_connections ` set pts then {} else sets a)"
  unfolding clear_connections_def
  by (induction pts arbitrary: sets) auto

lemma update_connections:
  "map pt_connections (map (\<lambda>p. BackboneParticle_update p t) ps) = map p_connections ps"
  by (simp add: BackboneParticle_update_def Let_def comp_def)

lemma init_addresses:
  "distinct (map p_connections (s_backboneParticles1 (init g) @ s_backboneParticles2 (init g)))"
proof -
  have a: "map p_connections (s_backboneParticles1 (init g)) = map (\<lambda>i. 2 * i) [0..<numBasePairs]"
    and b: "map p_connections (s_backboneParticles2 (init g))
              = map (\<lambda>i. 2 * i + 1) [0..<numBasePairs]"
    by (simp_all add: init_lists BackboneParticle_new_def comp_def)
  have "distinct (map (\<lambda>i::nat. 2 * i) [0..<numBasePairs])"
    and "distinct (map (\<lambda>i::nat. 2 * i + 1) [0..<numBasePairs])"
    by (simp_all add: distinct_map inj_on_def)
  moreover have "set (map (\<lambda>i::nat. 2 * i) [0..<numBasePairs])
                   \<inter> set (map (\<lambda>i::nat. 2 * i + 1) [0..<numBasePairs]) = {}"
    by (auto, presburger)
  ultimately show ?thesis by (simp only: map_append a b distinct_append)
qed

lemma frame_links_symmetric:
  assumes e: "s_backboneParticles1 s = s_backboneParticles1 (init g)"
             "s_backboneParticles2 s = s_backboneParticles2 (init g)"
    and i: "i < length (s_allPoints (snd (frame fd (h, s))))"
    and j: "j < length (s_allPoints (snd (frame fd (h, s))))"
  shows "(j \<in> s_sets (snd (frame fd (h, s)))
                (pt_connections (s_allPoints (snd (frame fd (h, s))) ! i)))
       = (i \<in> s_sets (snd (frame fd (h, s)))
                (pt_connections (s_allPoints (snd (frame fd (h, s))) ! j)))"
proof -
  let ?t = "real (s_time s + 1)"
  let ?b1 = "map (\<lambda>p. BackboneParticle_update p ?t) (s_backboneParticles1 s)"
  let ?b2 = "map (\<lambda>p. BackboneParticle_update p ?t) (s_backboneParticles2 s)"
  let ?pts = "sort_key pt_z (?b1 @ ?b2)"
  let ?sets1 = "clear_connections ?b2 (clear_connections ?b1 (s_sets s))"
  let ?r = "\<lambda>i j. random_js (d_link fd i j) None None"
  have pts: "s_allPoints (snd (frame fd (h, s))) = ?pts"
    by (simp add: frame_def Let_def split_beta)
  have sets: "s_sets (snd (frame fd (h, s))) = fst (short_range_links ?r ?pts (?sets1, []))"
    by (simp add: frame_def Let_def split_beta)
  have "distinct (map pt_connections (?b1 @ ?b2))"
    using init_addresses [of g] by (simp only: map_append update_connections e)
  then have d: "distinct (map pt_connections ?pts)"
    by (simp only: distinct_map distinct_sort set_sort)
  have c: "\<forall>p \<in> set ?pts. ?sets1 (pt_connections p) = {}"
    by (auto simp add: clear_connections_apply)
  from i j have i': "i < length ?pts" and j': "j < length ?pts" by (simp_all only: pts)
  from links_symmetric(1) [OF d c i' j', of ?r "[]"] show ?thesis
    by (simp only: pts sets)
qed


lemma frame_allPoints_length:
  assumes "s_backboneParticles1 s = s_backboneParticles1 (init g)"
    and "s_backboneParticles2 s = s_backboneParticles2 (init g)"
  shows "length (s_allPoints (snd (frame fd (h, s)))) = 2 * numBasePairs"
  using assms by (simp add: frame_def Let_def split_beta init_lists)

text \<open>
  C9: the link pass runs over an array of points whose sets are distinct objects and have
  been cleared. Afterwards position \<open>j\<close> is in the set of the point at position \<open>i\<close>
  exactly when \<open>i\<close> is in the set of the point at \<open>j\<close>; the lines stroked are those of
  the pairs \<open>i < j\<close> that pass the gate, in the order of the loops, and a pair's line is
  stroked exactly when each position has been added to the other's set. In every frame of
  a run of the component the relation recorded in the scene is symmetric.
\<close>

theorem short_range_links_symmetric:
  assumes "distinct (map pt_connections allPoints)"
    and "\<forall>p \<in> set allPoints. sets (pt_connections p) = {}"
    and "i < length allPoints" and "j < length allPoints"
  shows "(j \<in> fst (short_range_links r allPoints (sets, [])) (pt_connections (allPoints ! i)))
           = (i \<in> fst (short_range_links r allPoints (sets, [])) (pt_connections (allPoints ! j)))
    \<and> snd (short_range_links r allPoints (sets, []))
         = map (\<lambda>(i, j). link_stroke allPoints i j)
             (filter (\<lambda>(i, j). link_gate r allPoints i j)
                (concat (map (\<lambda>i. map (Pair i) [i + 1..<length allPoints])
                           [0..<length allPoints])))
    \<and> (i < j \<longrightarrow>
         ((i, j) \<in> set (filter (\<lambda>(i, j). link_gate r allPoints i j)
                          (concat (map (\<lambda>i. map (Pair i) [i + 1..<length allPoints])
                                     [0..<length allPoints]))))
           = (j \<in> fst (short_range_links r allPoints (sets, [])) (pt_connections (allPoints ! i))
              \<and> i \<in> fst (short_range_links r allPoints (sets, []))
                       (pt_connections (allPoints ! j))))
    \<and> length (s_allPoints (snd (frame fd (h, snd (host_frames cbs (h0, init g))))))
         = 2 * numBasePairs
    \<and> (m < 2 * numBasePairs \<and> n < 2 * numBasePairs \<longrightarrow>
         (n \<in> s_sets (snd (frame fd (h, snd (host_frames cbs (h0, init g)))))
                 (pt_connections
                    (s_allPoints (snd (frame fd (h, snd (host_frames cbs (h0, init g))))) ! m)))
           = (m \<in> s_sets (snd (frame fd (h, snd (host_frames cbs (h0, init g)))))
                 (pt_connections
                    (s_allPoints (snd (frame fd (h, snd (host_frames cbs (h0, init g))))) ! n))))"
proof -
  let ?s = "snd (host_frames cbs (h0, init g))"
  note sym = links_symmetric [OF assms, of r "[]"]
  have a: "(j \<in> fst (short_range_links r allPoints (sets, [])) (pt_connections (allPoints ! i)))
           = (i \<in> fst (short_range_links r allPoints (sets, [])) (pt_connections (allPoints ! j)))"
    by (rule sym(1))
  have b: "snd (short_range_links r allPoints (sets, []))
         = map (\<lambda>(i, j). link_stroke allPoints i j)
             (filter (\<lambda>(i, j). link_gate r allPoints i j)
                (concat (map (\<lambda>i. map (Pair i) [i + 1..<length allPoints])
                           [0..<length allPoints])))"
    by (simp add: short_range_links_out)
  have c: "i < j \<longrightarrow>
         ((i, j) \<in> set (filter (\<lambda>(i, j). link_gate r allPoints i j)
                          (concat (map (\<lambda>i. map (Pair i) [i + 1..<length allPoints])
                                     [0..<length allPoints]))))
           = (j \<in> fst (short_range_links r allPoints (sets, [])) (pt_connections (allPoints ! i))
              \<and> i \<in> fst (short_range_links r allPoints (sets, []))
                       (pt_connections (allPoints ! j)))"
  proof
    assume lt: "i < j"
    from sym(2) [OF lt] a assms(4) lt show
      "((i, j) \<in> set (filter (\<lambda>(i, j). link_gate r allPoints i j)
                          (concat (map (\<lambda>i. map (Pair i) [i + 1..<length allPoints])
                                     [0..<length allPoints]))))
           = (j \<in> fst (short_range_links r allPoints (sets, [])) (pt_connections (allPoints ! i))
              \<and> i \<in> fst (short_range_links r allPoints (sets, []))
                       (pt_connections (allPoints ! j)))"
      by (simp only: set_filter mem_Collect_eq link_pairs_set case_prod_conv) blast
  qed
  from host_frames_entities [where cbs = cbs and st = "(h0, init g)"]
  have e: "s_backboneParticles1 ?s = s_backboneParticles1 (init g)"
    "s_backboneParticles2 ?s = s_backboneParticles2 (init g)" by simp_all
  note len = frame_allPoints_length [OF e, of fd h]
  have d: "m < 2 * numBasePairs \<and> n < 2 * numBasePairs \<longrightarrow>
         (n \<in> s_sets (snd (frame fd (h, ?s)))
                 (pt_connections (s_allPoints (snd (frame fd (h, ?s))) ! m)))
           = (m \<in> s_sets (snd (frame fd (h, ?s)))
                 (pt_connections (s_allPoints (snd (frame fd (h, ?s))) ! n)))"
    using frame_links_symmetric [OF e, of m fd h n] by (simp only: len) blast
  from a b c len d show ?thesis by blast
qed

theorem short_range_links_symmetric_witness:
  "distinct (map pt_connections [\<lparr> pt_x = 0, pt_y = 0, pt_z = 0, pt_size = 2, pt_opacity = 160, pt_strand = 1, pt_bpIndex = 0, pt_rotation = 0, pt_entropy = 1, pt_connections = 0 \<rparr>, \<lparr> pt_x = 0, pt_y = 0, pt_z = 0, pt_size = 2, pt_opacity = 160, pt_strand = 2, pt_bpIndex = 0, pt_rotation = 0, pt_entropy = 1, pt_connections = 1 \<rparr>])
   \<and> (\<lambda>a. {}) (pt_connections \<lparr> pt_x = 0, pt_y = 0, pt_z = 0, pt_size = 2, pt_opacity = 160, pt_strand = 1, pt_bpIndex = 0, pt_rotation = 0, pt_entropy = 1, pt_connections = 0 \<rparr>) = ({} :: nat set)
   \<and> (1 \<in> fst (short_range_links (\<lambda>i j. Fin 0.9) [\<lparr> pt_x = 0, pt_y = 0, pt_z = 0, pt_size = 2, pt_opacity = 160, pt_strand = 1, pt_bpIndex = 0, pt_rotation = 0, pt_entropy = 1, pt_connections = 0 \<rparr>, \<lparr> pt_x = 0, pt_y = 0, pt_z = 0, pt_size = 2, pt_opacity = 160, pt_strand = 2, pt_bpIndex = 0, pt_rotation = 0, pt_entropy = 1, pt_connections = 1 \<rparr>] (\<lambda>a. {}, []))
               (pt_connections ([\<lparr> pt_x = 0, pt_y = 0, pt_z = 0, pt_size = 2, pt_opacity = 160, pt_strand = 1, pt_bpIndex = 0, pt_rotation = 0, pt_entropy = 1, pt_connections = 0 \<rparr>, \<lparr> pt_x = 0, pt_y = 0, pt_z = 0, pt_size = 2, pt_opacity = 160, pt_strand = 2, pt_bpIndex = 0, pt_rotation = 0, pt_entropy = 1, pt_connections = 1 \<rparr>] ! 0)))
   \<and> (0 \<in> fst (short_range_links (\<lambda>i j. Fin 0.9) [\<lparr> pt_x = 0, pt_y = 0, pt_z = 0, pt_size = 2, pt_opacity = 160, pt_strand = 1, pt_bpIndex = 0, pt_rotation = 0, pt_entropy = 1, pt_connections = 0 \<rparr>, \<lparr> pt_x = 0, pt_y = 0, pt_z = 0, pt_size = 2, pt_opacity = 160, pt_strand = 2, pt_bpIndex = 0, pt_rotation = 0, pt_entropy = 1, pt_connections = 1 \<rparr>] (\<lambda>a. {}, []))
               (pt_connections ([\<lparr> pt_x = 0, pt_y = 0, pt_z = 0, pt_size = 2, pt_opacity = 160, pt_strand = 1, pt_bpIndex = 0, pt_rotation = 0, pt_entropy = 1, pt_connections = 0 \<rparr>, \<lparr> pt_x = 0, pt_y = 0, pt_z = 0, pt_size = 2, pt_opacity = 160, pt_strand = 2, pt_bpIndex = 0, pt_rotation = 0, pt_entropy = 1, pt_connections = 1 \<rparr>] ! 1)))
   \<and> (1 \<in> s_sets (snd (frame \<lparr> d_basePair = (\<lambda>k. 0), d_link = (\<lambda>i j. 0) \<rparr> (\<lparr> h_pending = [1], h_next = 1, h_ref = Some 1, h_contexts = 1, h_canvas = [] \<rparr>, snd (host_frames [] (\<lparr> h_pending = [1], h_next = 1, h_ref = Some 1, h_contexts = 1, h_canvas = [] \<rparr>, init (\<lambda>k. 0))))))
             (pt_connections
                (s_allPoints (snd (frame \<lparr> d_basePair = (\<lambda>k. 0), d_link = (\<lambda>i j. 0) \<rparr> (\<lparr> h_pending = [1], h_next = 1, h_ref = Some 1, h_contexts = 1, h_canvas = [] \<rparr>, snd (host_frames [] (\<lparr> h_pending = [1], h_next = 1, h_ref = Some 1, h_contexts = 1, h_canvas = [] \<rparr>, init (\<lambda>k. 0)))))) ! 0)))
       = (0 \<in> s_sets (snd (frame \<lparr> d_basePair = (\<lambda>k. 0), d_link = (\<lambda>i j. 0) \<rparr> (\<lparr> h_pending = [1], h_next = 1, h_ref = Some 1, h_contexts = 1, h_canvas = [] \<rparr>, snd (host_frames [] (\<lparr> h_pending = [1], h_next = 1, h_ref = Some 1, h_contexts = 1, h_canvas = [] \<rparr>, init (\<lambda>k. 0))))))
             (pt_connections
                (s_allPoints (snd (frame \<lparr> d_basePair = (\<lambda>k. 0), d_link = (\<lambda>i j. 0) \<rparr> (\<lparr> h_pending = [1], h_next = 1, h_ref = Some 1, h_contexts = 1, h_canvas = [] \<rparr>, snd (host_frames [] (\<lparr> h_pending = [1], h_next = 1, h_ref = Some 1, h_contexts = 1, h_canvas = [] \<rparr>, init (\<lambda>k. 0)))))) ! 1)))"
proof -
  have d: "distinct (map pt_connections [\<lparr> pt_x = 0, pt_y = 0, pt_z = 0, pt_size = 2, pt_opacity = 160, pt_strand = 1, pt_bpIndex = 0, pt_rotation = 0, pt_entropy = 1, pt_connections = 0 \<rparr>, \<lparr> pt_x = 0, pt_y = 0, pt_z = 0, pt_size = 2, pt_opacity = 160, pt_strand = 2, pt_bpIndex = 0, pt_rotation = 0, pt_entropy = 1, pt_connections = 1 \<rparr>])" by simp
  have c: "\<forall>p \<in> set [\<lparr> pt_x = 0, pt_y = 0, pt_z = 0, pt_size = 2, pt_opacity = 160, pt_strand = 1, pt_bpIndex = 0, pt_rotation = 0, pt_entropy = 1, pt_connections = 0 \<rparr>, \<lparr> pt_x = 0, pt_y = 0, pt_z = 0, pt_size = 2, pt_opacity = 160, pt_strand = 2, pt_bpIndex = 0, pt_rotation = 0, pt_entropy = 1, pt_connections = 1 \<rparr>]. (\<lambda>a. {}) (pt_connections p) = ({} :: nat set)" by simp
  have i: "0 < length [\<lparr> pt_x = 0, pt_y = 0, pt_z = 0, pt_size = 2, pt_opacity = 160, pt_strand = 1, pt_bpIndex = 0, pt_rotation = 0, pt_entropy = 1, pt_connections = 0 \<rparr>, \<lparr> pt_x = 0, pt_y = 0, pt_z = 0, pt_size = 2, pt_opacity = 160, pt_strand = 2, pt_bpIndex = 0, pt_rotation = 0, pt_entropy = 1, pt_connections = 1 \<rparr>]" and j: "1 < length [\<lparr> pt_x = 0, pt_y = 0, pt_z = 0, pt_size = 2, pt_opacity = 160, pt_strand = 1, pt_bpIndex = 0, pt_rotation = 0, pt_entropy = 1, pt_connections = 0 \<rparr>, \<lparr> pt_x = 0, pt_y = 0, pt_z = 0, pt_size = 2, pt_opacity = 160, pt_strand = 2, pt_bpIndex = 0, pt_rotation = 0, pt_entropy = 1, pt_connections = 1 \<rparr>]" by simp_all
  have lt: "(0::nat) < 1" by simp
  have g: "link_gate (\<lambda>i j. Fin 0.9) [\<lparr> pt_x = 0, pt_y = 0, pt_z = 0, pt_size = 2, pt_opacity = 160, pt_strand = 1, pt_bpIndex = 0, pt_rotation = 0, pt_entropy = 1, pt_connections = 0 \<rparr>, \<lparr> pt_x = 0, pt_y = 0, pt_z = 0, pt_size = 2, pt_opacity = 160, pt_strand = 2, pt_bpIndex = 0, pt_rotation = 0, pt_entropy = 1, pt_connections = 1 \<rparr>] 0 1"
    by (simp add: link_gate_def dist_js_def fl_0_7)
  have mem: "(0, 1) \<in> set (filter (\<lambda>(i, j). link_gate (\<lambda>i j. Fin 0.9) [\<lparr> pt_x = 0, pt_y = 0, pt_z = 0, pt_size = 2, pt_opacity = 160, pt_strand = 1, pt_bpIndex = 0, pt_rotation = 0, pt_entropy = 1, pt_connections = 0 \<rparr>, \<lparr> pt_x = 0, pt_y = 0, pt_z = 0, pt_size = 2, pt_opacity = 160, pt_strand = 2, pt_bpIndex = 0, pt_rotation = 0, pt_entropy = 1, pt_connections = 1 \<rparr>] i j)
                          (concat (map (\<lambda>i. map (Pair i) [i + 1..<length [\<lparr> pt_x = 0, pt_y = 0, pt_z = 0, pt_size = 2, pt_opacity = 160, pt_strand = 1, pt_bpIndex = 0, pt_rotation = 0, pt_entropy = 1, pt_connections = 0 \<rparr>, \<lparr> pt_x = 0, pt_y = 0, pt_z = 0, pt_size = 2, pt_opacity = 160, pt_strand = 2, pt_bpIndex = 0, pt_rotation = 0, pt_entropy = 1, pt_connections = 1 \<rparr>]])
                                     [0..<length [\<lparr> pt_x = 0, pt_y = 0, pt_z = 0, pt_size = 2, pt_opacity = 160, pt_strand = 1, pt_bpIndex = 0, pt_rotation = 0, pt_entropy = 1, pt_connections = 0 \<rparr>, \<lparr> pt_x = 0, pt_y = 0, pt_z = 0, pt_size = 2, pt_opacity = 160, pt_strand = 2, pt_bpIndex = 0, pt_rotation = 0, pt_entropy = 1, pt_connections = 1 \<rparr>]])))"
    using g by (simp only: set_filter mem_Collect_eq link_pairs_set case_prod_conv) simp
  have mn: "(0::nat) < 2 * numBasePairs \<and> (1::nat) < 2 * numBasePairs"
    by (simp add: numBasePairs_def)
  note t = short_range_links_symmetric
             [OF d c i j, where r = "\<lambda>i j. Fin 0.9" and fd = "\<lparr> d_basePair = (\<lambda>k. 0), d_link = (\<lambda>i j. 0) \<rparr>"
               and h = "\<lparr> h_pending = [1], h_next = 1, h_ref = Some 1, h_contexts = 1, h_canvas = [] \<rparr>"
               and cbs = "[]" and h0 = "\<lparr> h_pending = [1], h_next = 1, h_ref = Some 1, h_contexts = 1, h_canvas = [] \<rparr>"
               and g = "\<lambda>k. 0" and m = 0 and n = 1]
  from t lt mem mn d show ?thesis by simp
qed

subsection \<open>The base-pair pass\<close>

lemma frame_canvas:
  "h_canvas (fst (frame fd (h, s)))
     = h_canvas h @ [FillRect (Hex ''#F0EEE6'') 0 0 width height]
         @ snd (short_range_links (\<lambda>i j. random_js (d_link fd i j) None None)
                  (s_allPoints (snd (frame fd (h, s))))
                  (clear_connections
                     (map (\<lambda>p. BackboneParticle_update p (real (s_time s + 1)))
                        (s_backboneParticles2 s))
                     (clear_connections
                        (map (\<lambda>p. BackboneParticle_update p (real (s_time s + 1)))
                           (s_backboneParticles1 s))
                        (s_sets s)), []))
         @ base_pair_pass
             (map (\<lambda>(k, p). snd (BasePair_update (d_basePair fd k) p (real (s_time s + 1))))
                (enumerate 0 (s_basePairs s)))"
  by (simp add: frame_def Let_def case_prod_unfold comp_def)

lemma frame_flags:
  "map bp_isConnected
       (map (\<lambda>(k, p). snd (BasePair_update (d_basePair fd k) p (real (s_time s + 1))))
          (enumerate 0 (s_basePairs s)))
     = map b_isConnected (s_basePairs (snd (frame fd (h, s))))"
  by (simp add: frame_def Let_def case_prod_unfold comp_def BasePair_update_def)

text \<open>
  C6: among the drawing calls issued for one base pair there is a stroked line exactly
  when the pair's connected flag is true, and then it is the one line between the two
  base positions, of width 1.5, with an opacity made of the depth, the stored opacity and
  the bond strength. The two filled disks are issued in either case and do not depend on
  the flag: their radius comes from the size and the depth, their colour from the type,
  their opacity from the stored opacity and the depth. Every frame issues these calls for
  each base pair in turn, with the flags the pairs have after their update.
\<close>

theorem base_pair_bond_line_iff_connected:
  "(\<exists>w c xa ya xb yb. StrokeLine w c xa ya xb yb \<in> set (draw_base_pair bp)) = bp_isConnected bp
   \<and> filter (\<lambda>d. case d of StrokeLine w c xa ya xb yb \<Rightarrow> True | _ \<Rightarrow> False) (draw_base_pair bp)
       = (if bp_isConnected bp
          then [StrokeLine 1.5
                  (Rgba 80 40 120
                     ((bp_opacity bp / 255)
                        * map_js (min (bp_z1 bp) (bp_z2 bp)) (- HELIX_RADIUS) HELIX_RADIUS 0.3 1
                        * bp_strength bp))
                  (bp_x1 bp) (bp_y bp) (bp_x2 bp) (bp_y bp)]
          else [])
   \<and> filter (\<lambda>d. case d of FillArc c x y rad a b \<Rightarrow> True | _ \<Rightarrow> False) (draw_base_pair bp)
       = [FillArc (if bp_type bp = GC
                   then Rgba 120 60 40
                          ((bp_opacity bp / 255)
                             * map_js (min (bp_z1 bp) (bp_z2 bp)) (- HELIX_RADIUS) HELIX_RADIUS 0.4 1)
                   else Rgba 60 120 40
                          ((bp_opacity bp / 255)
                             * map_js (min (bp_z1 bp) (bp_z2 bp)) (- HELIX_RADIUS) HELIX_RADIUS 0.4 1))
            (bp_x1 bp) (bp_y bp)
            (bp_size bp * map_js (min (bp_z1 bp) (bp_z2 bp)) (- HELIX_RADIUS) HELIX_RADIUS 0.8 1.3 / 2)
            0 TWO_PI,
          FillArc (if bp_type bp = GC
                   then Rgba 120 60 40
                          ((bp_opacity bp / 255)
                             * map_js (min (bp_z1 bp) (bp_z2 bp)) (- HELIX_RADIUS) HELIX_RADIUS 0.4 1)
                   else Rgba 60 120 40
                          ((bp_opacity bp / 255)
                             * map_js (min (bp_z1 bp) (bp_z2 bp)) (- HELIX_RADIUS) HELIX_RADIUS 0.4 1))
            (bp_x2 bp) (bp_y bp)
            (bp_size bp * map_js (min (bp_z1 bp) (bp_z2 bp)) (- HELIX_RADIUS) HELIX_RADIUS 0.8 1.3 / 2)
            0 TWO_PI]
   \<and> filter (\<lambda>d. case d of FillArc c x y rad a b \<Rightarrow> True | _ \<Rightarrow> False)
         (draw_base_pair (bp\<lparr> bp_isConnected := flag \<rparr>))
       = filter (\<lambda>d. case d of FillArc c x y rad a b \<Rightarrow> True | _ \<Rightarrow> False) (draw_base_pair bp)
   \<and> (\<exists>before.
         h_canvas (fst (frame fd (h, s)))
           = before
               @ concat (map draw_base_pair
                   (map (\<lambda>(k, p). snd (BasePair_update (d_basePair fd k) p (real (s_time s + 1))))
                      (enumerate 0 (s_basePairs s)))))
   \<and> map bp_isConnected
         (map (\<lambda>(k, p). snd (BasePair_update (d_basePair fd k) p (real (s_time s + 1))))
            (enumerate 0 (s_basePairs s)))
       = map b_isConnected (s_basePairs (snd (frame fd (h, s))))"
proof -
  have a: "(\<exists>w c xa ya xb yb. StrokeLine w c xa ya xb yb \<in> set (draw_base_pair bp))
             = bp_isConnected bp"
  proof (cases "bp_isConnected bp")
    case True
    then have "StrokeLine 1.5
                 (Rgba 80 40 120
                    ((bp_opacity bp / 255)
                       * map_js (min (bp_z1 bp) (bp_z2 bp)) (- HELIX_RADIUS) HELIX_RADIUS 0.3 1
                       * bp_strength bp))
                 (bp_x1 bp) (bp_y bp) (bp_x2 bp) (bp_y bp) \<in> set (draw_base_pair bp)"
      by (simp add: draw_base_pair_def Let_def)
    with True show ?thesis by blast
  next
    case False
    then show ?thesis by (simp add: draw_base_pair_def Let_def)
  qed
  have b: "\<exists>before.
         h_canvas (fst (frame fd (h, s)))
           = before
               @ concat (map draw_base_pair
                   (map (\<lambda>(k, p). snd (BasePair_update (d_basePair fd k) p (real (s_time s + 1))))
                      (enumerate 0 (s_basePairs s))))"
    unfolding frame_canvas base_pair_pass_def by (metis append.assoc)
  from a b frame_flags [of fd s h] show ?thesis
    by (simp add: draw_base_pair_def Let_def)
qed


subsection \<open>What an update reads and writes\<close>

lemma fold_link_body_adds:
  "\<exists>G. \<forall>sets out.
     fst (fold (\<lambda>(i, j). link_body r pts i j) ps (sets, out)) = (\<lambda>a. sets a \<union> G a)"
proof (induction ps)
  case Nil
  show ?case by (rule exI [of _ "\<lambda>a. {}"]) simp
next
  case (Cons p ps)
  obtain i j where p: "p = (i, j)" by (cases p)
  from Cons.IH obtain G where G:
    "\<And>sets out. fst (fold (\<lambda>(i, j). link_body r pts i j) ps (sets, out)) = (\<lambda>a. sets a \<union> G a)"
    by (elim exE) simp
  define g where "g = (\<lambda>a. if link_gate r pts i j
                          then (if a = pt_connections (pts ! i) then {j} else {})
                                 \<union> (if a = pt_connections (pts ! j) then {i} else {})
                          else {})"
  have step: "fst (link_body r pts i j (sets, out)) = (\<lambda>a. sets a \<union> g a)" for sets out
    by (rule ext) (simp add: link_body_eq g_def)
  have "fst (fold (\<lambda>(i, j). link_body r pts i j) (p # ps) (sets, out))
          = (\<lambda>a. sets a \<union> (g a \<union> G a))" for sets out
  proof -
    obtain s2 o2 where l: "link_body r pts i j (sets, out) = (s2, o2)"
      by (cases "link_body r pts i j (sets, out)")
    with step [of sets out] have s2: "s2 = (\<lambda>a. sets a \<union> g a)" by simp
    have "fst (fold (\<lambda>(i, j). link_body r pts i j) (p # ps) (sets, out))
            = fst (fold (\<lambda>(i, j). link_body r pts i j) ps (s2, o2))"
      by (simp add: p l)
    also have "\<dots> = (\<lambda>a. s2 a \<union> G a)" by (rule G)
    also have "\<dots> = (\<lambda>a. sets a \<union> (g a \<union> G a))"
      by (simp add: s2 Un_assoc)
    finally show ?thesis .
  qed
  then show ?case by (intro exI [of _ "\<lambda>a. g a \<union> G a"] allI)
qed

lemma short_range_links_same:
  assumes "sets a = sets' a"
  shows "fst (short_range_links r pts (sets, out)) a = fst (short_range_links r pts (sets', out')) a"
proof -
  let ?ps = "concat (map (\<lambda>i. map (Pair i) [i + 1..<length pts]) [0..<length pts])"
  from fold_link_body_adds [of r pts ?ps] obtain G where G:
    "\<And>sets out. fst (fold (\<lambda>(i, j). link_body r pts i j) ?ps (sets, out)) = (\<lambda>a. sets a \<union> G a)"
    by (elim exE) simp
  have run: "short_range_links r pts st = fold (\<lambda>(i, j). link_body r pts i j) ?ps st" for st
    unfolding short_range_links_def by (rule nested_fold_pairs)
  show ?thesis by (simp only: run G assms)
qed


lemma frame_sets_rebuilt:
  "map (s_sets (snd (frame fd (h, s\<lparr> s_sets := old \<rparr>))))
       (map p_connections (s_backboneParticles1 s @ s_backboneParticles2 s))
     = map (s_sets (snd (frame fd (h, s))))
         (map p_connections (s_backboneParticles1 s @ s_backboneParticles2 s))"
proof -
  let ?t = "real (s_time s + 1)"
  let ?b1 = "map (\<lambda>p. BackboneParticle_update p ?t) (s_backboneParticles1 s)"
  let ?b2 = "map (\<lambda>p. BackboneParticle_update p ?t) (s_backboneParticles2 s)"
  let ?pts = "sort_key pt_z (?b1 @ ?b2)"
  let ?r = "\<lambda>i j. random_js (d_link fd i j) None None"
  have sets: "s_sets (snd (frame fd (h, s\<lparr> s_sets := X \<rparr>)))
          = fst (short_range_links ?r ?pts (clear_connections ?b2 (clear_connections ?b1 X), []))"
    for X
    by (simp add: frame_def Let_def split_beta)
  have same: "s\<lparr> s_sets := s_sets s \<rparr> = s" by simp
  have "s_sets (snd (frame fd (h, s\<lparr> s_sets := old \<rparr>))) (p_connections p)
          = s_sets (snd (frame fd (h, s\<lparr> s_sets := s_sets s \<rparr>))) (p_connections p)"
    if "p \<in> set (s_backboneParticles1 s @ s_backboneParticles2 s)" for p
  proof -
    from that have "p_connections p \<in> pt_connections ` set ?b1 \<union> pt_connections ` set ?b2"
      by (auto simp add: BackboneParticle_update_def Let_def image_iff)
    then have "clear_connections ?b2 (clear_connections ?b1 old) (p_connections p)
                 = clear_connections ?b2 (clear_connections ?b1 (s_sets s)) (p_connections p)"
      by (auto simp add: clear_connections_apply)
    then show ?thesis unfolding sets by (rule short_range_links_same)
  qed
  then show ?thesis unfolding same by simp
qed

lemma BasePair_update_point:
  "(snd (BasePair_update u' (fst (BasePair_update u this t)) t))\<lparr> bp_isConnected := c \<rparr>
     = (snd (BasePair_update u this t))\<lparr> bp_isConnected := c \<rparr>"
  by (simp add: BasePair_update_def bond_step_def Let_def)

text \<open>
  C1, as stated, fails: the update of a base pair has a side effect of its own. It adds
  one to the pair's reconnection counter, here from 0 to 1.
\<close>

theorem BasePair_update_mutates_counterexample:
  "b_reconnectionTimer (fst (BasePair_update 0 (BasePair_new 0 (\<lambda>k. 0)) 1))
     \<noteq> b_reconnectionTimer (BasePair_new 0 (\<lambda>k. 0))"
  by (simp add: BasePair_update_bond random_js_noarg bond_step_connected BasePair_new_def Let_def)

text \<open>
  Every update of a base pair changes the reconnection counter: it adds one, or it sets
  a counter of at least 30 back to zero.
\<close>

lemma update_changes_timer:
  assumes "0 \<le> u"
  shows "b_reconnectionTimer (fst (BasePair_update u this t)) \<noteq> b_reconnectionTimer this"
proof (cases "b_isConnected this")
  case True
  then show ?thesis by (simp add: update_connected)
next
  case False
  show ?thesis
  proof (cases "real (b_reconnectionTimer this + 1) > fl (fl (u * 50) + 30)")
    case True
    with dwell_ge_30 [OF assms] have "real (b_reconnectionTimer this + 1) > 30" by linarith
    then have "b_reconnectionTimer this \<noteq> 0" by auto
    with True show ?thesis by (simp add: update_disconnected [OF False])
  next
    case no: False
    then show ?thesis by (simp add: update_disconnected [OF False])
  qed
qed

text \<open>
  C1, amended: the points of a frame are computed from the particle arrays and the frame
  counter alone, and the frame leaves the particle arrays as they are. The update of a
  base pair does write to the pair: every call, for a value of \<open>Math.random()\<close> that
  is not negative and a reconnection counter below \<open>2\<^sup>5\<^sup>3\<close> (where adding one
  to a double is exact), changes the reconnection counter; it changes no field of the
  pair but the connected flag and the reconnection counter; and a second update at the
  same time returns the same point as the first apart from the connected flag. The sets
  of the particles are cleared before the link pass rebuilds them: their content after a
  frame does not depend on their content before it.
\<close>

theorem update_reads_and_writes:
  "s_allPoints (snd (frame fd (h, s)))
     = sort_key pt_z
         (map (\<lambda>p. BackboneParticle_update p (real (s_time s + 1)))
            (s_backboneParticles1 s @ s_backboneParticles2 s))
   \<and> s_backboneParticles1 (snd (frame fd (h, s))) = s_backboneParticles1 s
   \<and> s_backboneParticles2 (snd (frame fd (h, s))) = s_backboneParticles2 s
   \<and> (0 \<le> u \<and> b_reconnectionTimer this < 2 ^ 53 \<longrightarrow>
        b_reconnectionTimer (fst (BasePair_update u this t)) \<noteq> b_reconnectionTimer this)
   \<and> (fst (BasePair_update u this t))\<lparr> b_isConnected := c', b_reconnectionTimer := k \<rparr>
       = this\<lparr> b_isConnected := c', b_reconnectionTimer := k \<rparr>
   \<and> (snd (BasePair_update u' (fst (BasePair_update u this t)) t))\<lparr> bp_isConnected := c \<rparr>
       = (snd (BasePair_update u this t))\<lparr> bp_isConnected := c \<rparr>
   \<and> map (s_sets (snd (frame fd (h, s\<lparr> s_sets := old \<rparr>))))
         (map p_connections (s_backboneParticles1 s @ s_backboneParticles2 s))
       = map (s_sets (snd (frame fd (h, s))))
           (map p_connections (s_backboneParticles1 s @ s_backboneParticles2 s))"
proof -
  have pts: "s_allPoints (snd (frame fd (h, s)))
     = sort_key pt_z
         (map (\<lambda>p. BackboneParticle_update p (real (s_time s + 1)))
            (s_backboneParticles1 s @ s_backboneParticles2 s))"
    by (simp add: frame_def Let_def split_beta)
  note e = frame_entities [of fd h s]
  note pt = BasePair_update_point [where u' = u' and u = u and this = this and t = t and c = c]
  note st = BasePair_update_static [where u = u and b = this and t = t and c = c' and k = k]
  note rb = frame_sets_rebuilt [where fd = fd and h = h and s = s and old = old]
  have ch: "0 \<le> u \<and> b_reconnectionTimer this < 2 ^ 53 \<longrightarrow>
        b_reconnectionTimer (fst (BasePair_update u this t)) \<noteq> b_reconnectionTimer this"
    by (simp add: update_changes_timer)
  from pts e(1) e(2) ch st pt rb show ?thesis by (intro conjI)
qed

theorem update_reads_and_writes_witness:
  "0 \<le> (1 / 2 :: real)
   \<and> b_reconnectionTimer
        (BasePair_new 3 (\<lambda>k. 0)\<lparr> b_isConnected := False, b_reconnectionTimer := 60 \<rparr>) < 2 ^ 53
   \<and> b_reconnectionTimer
        (fst (BasePair_update (1 / 2)
                (BasePair_new 3 (\<lambda>k. 0)\<lparr> b_isConnected := False, b_reconnectionTimer := 60 \<rparr>) 7))
       \<noteq> 60"
  using update_reads_and_writes
    [where u = "1 / 2" and t = 7
       and this = "BasePair_new 3 (\<lambda>k. 0)\<lparr> b_isConnected := False, b_reconnectionTimer := 60 \<rparr>"]
  by simp

end
